theory Spec2Isabelle
  imports Main "HOL-Library.AList" "HOL-Library.Word"
begin

section \<open>JavaScript values\<close>

text \<open>
  The actions receive their options, the user definition and the parsed error stream as
  untyped values (\<^verbatim>\<open>any\<close>), and a promise may reject with any value. They are
  modelled by the JSON-shaped values of JavaScript: \<^verbatim>\<open>undefined\<close>, \<^verbatim>\<open>null\<close>,
  booleans, numbers, strings, arrays and plain objects. A plain object is the association
  list of its own properties, in insertion order. An array is the list of its elements
  together with the named properties assigned to it, which a parsed or literal array has
  none of. The numbers are the integers from \<open>- 2 ^ 53\<close> to \<open>2 ^ 53 - 1\<close>, each of which
  a double holds exactly and renders by its decimal digits: a signed word of 54 bits,
  read by \<open>sint\<close>. The code writes the numbers 0, 1, 5 and 999 and computes with none.
\<close>

datatype jsval =
    JUndefined
  | JNull
  | JBool bool
  | JNum "54 word"
  | JStr string
  | JArr "jsval list" "(string \<times> jsval) list"
  | JObj "(string \<times> jsval) list"

text \<open>ToBoolean: what \<^verbatim>\<open>!x\<close>, \<^verbatim>\<open>x || y\<close> and \<^verbatim>\<open>if (x)\<close> test.\<close>

fun truthy :: "jsval \<Rightarrow> bool" where
  "truthy JUndefined = False"
| "truthy JNull = False"
| "truthy (JBool b) = b"
| "truthy (JNum n) = (n \<noteq> 0)"
| "truthy (JStr s) = (s \<noteq> [])"
| "truthy (JArr xs ps) = True"
| "truthy (JObj kvs) = True"

text \<open>The operator \<^verbatim>\<open>a || b\<close> on values.\<close>

definition js_or :: "jsval \<Rightarrow> jsval \<Rightarrow> jsval" where
  "js_or a b = (if truthy a then a else b)"

text \<open>A string between single quotes, as the messages of this code quote a value.\<close>

definition squote :: "string \<Rightarrow> string" where
  "squote s = [CHR 0x27] @ s @ [CHR 0x27]"

subsection \<open>Thrown values\<close>

text \<open>
  What a function throws or a promise rejects with: the engine's own \<^verbatim>\<open>TypeError\<close>
  (reading or writing a property of \<^verbatim>\<open>null\<close> or \<^verbatim>\<open>undefined\<close>, rendering a value
  that has no string rendering, a non-string handed to \<^verbatim>\<open>path.join\<close>), the
  \<^verbatim>\<open>SyntaxError\<close> of \<^verbatim>\<open>JSON.parse\<close>, \<^verbatim>\<open>new Error(message)\<close>, or a value of a
  collaborator. A function that may throw returns a sum, \<open>Inl\<close> the thrown value; an
  awaited promise likewise, \<open>Inl\<close> the rejection and \<open>Inr\<close> the value it resolves with.
\<close>

datatype 'x thrown =
    TypeError
  | SyntaxError
  | Error string
  | Foreign 'x

text \<open>Sequencing: a thrown value ends the computation, a returned one is passed on.\<close>

fun bindE :: "'t + 'a \<Rightarrow> ('a \<Rightarrow> 't + 'b) \<Rightarrow> 't + 'b" where
  "bindE (Inl e) f = Inl e"
| "bindE (Inr a) f = f a"

subsection \<open>String rendering\<close>

text \<open>
  The decimal digits of an integer, as \<^verbatim>\<open>Number.prototype.toString\<close> gives them for
  the numbers of the model.
\<close>

definition digit_char :: "int \<Rightarrow> char" where
  "digit_char d = ''0123456789'' ! nat d"

function decimal :: "int \<Rightarrow> string" where
  "decimal n = (if 10 \<le> n then decimal (n div 10) else []) @ [digit_char (n mod 10)]"
  by pat_completeness auto

termination decimal
  by (relation "measure nat") auto

definition show_int :: "int \<Rightarrow> string" where
  "show_int i = (if 0 \<le> i then decimal i else CHR ''-'' # decimal (- i))"

text \<open>Whether an object has an own property of the given name.\<close>

definition has_own :: "(string \<times> jsval) list \<Rightarrow> string \<Rightarrow> bool" where
  "has_own kvs k = (map_of kvs k \<noteq> None)"

text \<open>
  ToString, as a template literal \<^verbatim>\<open>`${x}`\<close> and \<^verbatim>\<open>RegExp.prototype.test\<close> apply
  it. A primitive renders as such. An object is converted by its \<^verbatim>\<open>toString\<close>
  method. None of the values here is a function, so an object with an own property
  \<^verbatim>\<open>toString\<close> has no callable \<^verbatim>\<open>toString\<close>, its \<^verbatim>\<open>valueOf\<close> (its own, not
  callable, or the inherited one, which returns the object) yields no primitive, and the
  conversion throws a \<^verbatim>\<open>TypeError\<close>. Otherwise a plain object inherits
  \<^verbatim>\<open>Object.prototype.toString\<close> and renders as \<^verbatim>\<open>[object Object]\<close>; an array
  inherits \<^verbatim>\<open>Array.prototype.toString\<close>, which calls \<^verbatim>\<open>join\<close>: the elements
  rendered in turn and joined by commas, \<^verbatim>\<open>null\<close> and \<^verbatim>\<open>undefined\<close> elements as
  the empty string, or, when an own property \<^verbatim>\<open>join\<close> hides the method, falls back
  to \<^verbatim>\<open>[object Array]\<close>.
\<close>

fun ToString :: "jsval \<Rightarrow> 'x thrown + string"
  and join_elements :: "jsval list \<Rightarrow> 'x thrown + string" where
  "ToString JUndefined = Inr ''undefined''"
| "ToString JNull = Inr ''null''"
| "ToString (JBool b) = Inr (if b then ''true'' else ''false'')"
| "ToString (JNum n) = Inr (show_int (sint n))"
| "ToString (JStr s) = Inr s"
| "ToString (JArr xs ps) =
     (if has_own ps ''toString'' then Inl TypeError
      else if has_own ps ''join'' then Inr ''[object Array]''
      else join_elements xs)"
| "ToString (JObj kvs) =
     (if has_own kvs ''toString'' then Inl TypeError else Inr ''[object Object]'')"
| "join_elements [] = Inr []"
| "join_elements [x] = (if x = JUndefined \<or> x = JNull then Inr [] else ToString x)"
| "join_elements (x # y # ys) =
     bindE (if x = JUndefined \<or> x = JNull then Inr [] else ToString x) (\<lambda>s.
     bindE (join_elements (y # ys)) (\<lambda>t. Inr (s @ '','' @ t)))"

subsection \<open>Property access\<close>

text \<open>
  \<^verbatim>\<open>x.k\<close> for the property names this code reads, none of which is an index or
  \<^verbatim>\<open>length\<close> or is defined by the prototypes of strings, numbers, booleans, arrays
  or plain objects: an own property of a plain object or of an array, or
  \<^verbatim>\<open>undefined\<close>; on \<^verbatim>\<open>null\<close> and \<^verbatim>\<open>undefined\<close> the read throws.
\<close>

definition lookup :: "(string \<times> jsval) list \<Rightarrow> string \<Rightarrow> jsval" where
  "lookup kvs k = (case map_of kvs k of None \<Rightarrow> JUndefined | Some v \<Rightarrow> v)"

fun own_property :: "jsval \<Rightarrow> string \<Rightarrow> jsval" where
  "own_property (JObj kvs) k = lookup kvs k"
| "own_property (JArr xs ps) k = lookup ps k"
| "own_property v k = JUndefined"

fun getProp :: "jsval \<Rightarrow> string \<Rightarrow> 'x thrown + jsval" where
  "getProp JUndefined k = Inl TypeError"
| "getProp JNull k = Inl TypeError"
| "getProp v k = Inr (own_property v k)"


section \<open>The recipe engine's actions\<close>

subsection \<open>Context, result and collaborators\<close>

text \<open>
  The fields of \<^verbatim>\<open>AppxEngineActionContext\<close> that the actions read. The observer is
  an opaque value handed through to the executor.
\<close>

record TargetOrg =
  "alias" :: string

record ProjectContext =
  configPath :: string
  mdapiSourcePath :: string

record ListrExecOptions =
  observer :: jsval

record AppxEngineActionContext =
  targetOrg :: TargetOrg
  devHubAlias :: string
  projectContext :: ProjectContext
  logLevel :: string
  listrExecOptions :: ListrExecOptions

text \<open>
  \<^verbatim>\<open>SfdxFalconResultOptions\<close>; an option the caller leaves out is \<open>None\<close>.
\<close>

record SfdxFalconResultOptions =
  startNow :: "bool option"
  bubbleError :: "bool option"
  bubbleFailure :: "bool option"
  failureIsError :: "bool option"

datatype SfdxFalconResultType = ENGINE | ACTION | EXECUTOR | UTILITY | COMMAND

text \<open>
  An \<^verbatim>\<open>SfdxFalconResult\<close> as the actions see it: its \<^verbatim>\<open>detail\<close> object, which
  the action reads and writes, and the rest of the node (kind, status, children,
  timestamps), which only the class's own methods touch.
\<close>

record 'n SfdxFalconResult =
  detail :: "(string \<times> jsval) list"
  node :: 'n

text \<open>
  The code the actions call that lives in other modules: the methods of class
  \<^verbatim>\<open>SfdxFalconResult\<close> and of the action base class, the executors, the utilities
  and Node's \<^verbatim>\<open>path.join\<close>. Each is a parameter. A method of the result
  returns the result as it leaves it, with the value it throws, if it throws; a
  utility returns its value or what it throws; an asynchronous collaborator returns what
  its promise settles with.
\<close>

record ('n, 'c, 'x) collaborators =
  createActionResult ::
    "AppxEngineActionContext \<Rightarrow> jsval \<Rightarrow> SfdxFalconResultOptions \<Rightarrow> 'n SfdxFalconResult"
  throw_result :: "'n SfdxFalconResult \<Rightarrow> 'x thrown \<Rightarrow> 'n SfdxFalconResult \<times> 'x thrown option"
  addChild :: "'n SfdxFalconResult \<Rightarrow> 'c \<Rightarrow> 'n SfdxFalconResult \<times> 'x thrown option"
  wrapRejectedPromise :: "'x thrown \<Rightarrow> string \<Rightarrow> SfdxFalconResultType \<Rightarrow> 'c"
  addRejectedChild ::
    "'n SfdxFalconResult \<Rightarrow> 'x thrown \<Rightarrow> SfdxFalconResultType \<Rightarrow> string
       \<Rightarrow> 'n SfdxFalconResult \<times> 'x thrown option"
  addResolvedChild ::
    "'n SfdxFalconResult \<Rightarrow> jsval \<Rightarrow> SfdxFalconResultType \<Rightarrow> string
       \<Rightarrow> 'n SfdxFalconResult \<times> 'x thrown option"
  readConfigFile :: "string \<Rightarrow> jsval \<Rightarrow> 'x thrown + jsval"
  createUniqueUsername :: "jsval \<Rightarrow> 'x thrown + string"
  createUser ::
    "string \<Rightarrow> jsval \<Rightarrow> jsval \<Rightarrow> TargetOrg \<Rightarrow> jsval \<Rightarrow> jsval \<Rightarrow> 'x thrown + 'c"
  executeSfdxCommand :: "jsval \<Rightarrow> 'x thrown + jsval"
  path_join :: "string \<Rightarrow> string \<Rightarrow> string"

text \<open>A parameter \<^verbatim>\<open>actionOptions:any={}\<close>: the default stands in for \<^verbatim>\<open>undefined\<close>.\<close>

definition defaultOptions :: "jsval \<Rightarrow> jsval" where
  "defaultOptions actionOptions = (if actionOptions = JUndefined then JObj [] else actionOptions)"

section \<open>create-user\<close>

text \<open>
  \<^verbatim>\<open>function determineDefaultPassword(suggestedPassword:string):string\<close>. The caller
  passes \<^verbatim>\<open>userDefinition.password\<close>, which is \<^verbatim>\<open>undefined\<close> when the definition
  has no such field, so the argument is a value.
\<close>

definition determineDefaultPassword :: "jsval \<Rightarrow> jsval" where
  "determineDefaultPassword suggestedPassword =
     (if \<not> truthy suggestedPassword then JStr ''1HappyCloud'' else suggestedPassword)"

text \<open>\<^verbatim>\<open>CreateUserAction.validateActionOptions\<close>: synchronous, throws or returns.\<close>

definition CreateUserAction_validateActionOptions :: "jsval \<Rightarrow> 'x thrown + unit" where
  "CreateUserAction_validateActionOptions actionOptions =
     bindE (getProp actionOptions ''definitionFile'') (\<lambda>definitionFile.
       if definitionFile = JUndefined
       then Inl (Error (''ERROR_MISSING_OPTION: '' @ squote ''definitionFile''))
       else bindE (getProp actionOptions ''sfdxUserAlias'') (\<lambda>sfdxUserAlias.
         if sfdxUserAlias = JUndefined
         then Inl (Error (''ERROR_MISSING_OPTION: '' @ squote ''sfdxUserAlias''))
         else Inr ()))"

text \<open>
  The arguments \<^verbatim>\<open>executeAction\<close> hands to the \<^verbatim>\<open>createUser\<close> executor.
\<close>

record CreateUserArgs =
  arg_uniqueUsername :: string
  arg_defaultPassword :: jsval
  arg_userDefinition :: jsval
  arg_targetOrg :: TargetOrg
  arg_executorMessages :: jsval
  arg_observer :: jsval

text \<open>
  \<^verbatim>\<open>CreateUserAction.executeAction\<close>, up to the call of the executor: it creates the
  action's result, reads the user definition, derives the username and the password and
  sets the messages, recording each in \<^verbatim>\<open>actionResult.detail\<close>. It yields the result
  as it stands and the executor's arguments, or what was thrown on the way. The calls of
  \<^verbatim>\<open>debugResult\<close> only print and are left out.
\<close>

definition CreateUserAction_executeAction_compose ::
  "('n, 'c, 'x) collaborators \<Rightarrow> AppxEngineActionContext \<Rightarrow> jsval
     \<Rightarrow> 'x thrown + ('n SfdxFalconResult \<times> CreateUserArgs)" where
  "CreateUserAction_executeAction_compose C actionContext options =
     (let actionOptions = defaultOptions options;
          actionResult0 = createActionResult C actionContext actionOptions
            \<lparr>startNow = Some True, bubbleError = Some True, bubbleFailure = Some True,
             failureIsError = None\<rparr>;
          actionResult1 = actionResult0\<lparr>detail :=
            [(''userDefinition'', JNull), (''uniqueUsername'', JNull),
             (''defaultPassword'', JNull), (''executorMessages'', JNull)]\<rparr>
      in
      bindE (getProp actionOptions ''definitionFile'') (\<lambda>definitionFile.
      bindE (case readConfigFile C (configPath (projectContext actionContext)) definitionFile of
               Inr config \<Rightarrow> Inr (actionResult1, config)
             | Inl error \<Rightarrow>
                 (case throw_result C actionResult1 error of
                    (r, Some t) \<Rightarrow> Inl t
                  | (r, None) \<Rightarrow> Inr (r, JUndefined)))
        (\<lambda>(actionResult2, userDefinition).
      let actionResult3 = actionResult2\<lparr>detail :=
            AList.update ''userDefinition'' userDefinition (detail actionResult2)\<rparr>
      in
      bindE (getProp userDefinition ''Username'') (\<lambda>username.
      bindE (createUniqueUsername C username) (\<lambda>uniqueUsername.
      let actionResult4 = actionResult3\<lparr>detail :=
            AList.update ''uniqueUsername'' (JStr uniqueUsername) (detail actionResult3)\<rparr>
      in
      bindE (getProp userDefinition ''password'') (\<lambda>password.
      let defaultPassword = determineDefaultPassword password;
          actionResult5 = actionResult4\<lparr>detail :=
            AList.update ''defaultPassword'' defaultPassword (detail actionResult4)\<rparr>;
          executorMessages = JObj
            [(''progressMsg'', JStr (''Creating User '' @ squote uniqueUsername @ '' in ''
                @ alias (targetOrg actionContext))),
             (''errorMsg'', JStr (''Failed to create User '' @ squote uniqueUsername @ '' in ''
                @ alias (targetOrg actionContext))),
             (''successMsg'', JStr (''User '' @ squote uniqueUsername @ '' created successfully''))];
          actionResult6 = actionResult5\<lparr>detail :=
            AList.update ''executorMessages'' executorMessages (detail actionResult5)\<rparr>
      in Inr (actionResult6,
              \<lparr>arg_uniqueUsername = uniqueUsername, arg_defaultPassword = defaultPassword,
               arg_userDefinition = userDefinition, arg_targetOrg = targetOrg actionContext,
               arg_executorMessages = executorMessages,
               arg_observer = observer (listrExecOptions actionContext)\<rparr>)))))))"

text \<open>
  The rest of \<^verbatim>\<open>executeAction\<close>: \<^verbatim>\<open>createUser(...).then(...).catch(...)\<close>. The
  \<^verbatim>\<open>then\<close> handler adds the executor's result as a child; the \<^verbatim>\<open>catch\<close> handler,
  which also receives what the \<^verbatim>\<open>then\<close> handler throws, wraps the rejection and adds
  that as a child.
\<close>

definition CreateUserAction_catch ::
  "('n, 'c, 'x) collaborators \<Rightarrow> 'n SfdxFalconResult \<Rightarrow> 'x thrown
     \<Rightarrow> 'x thrown + 'n SfdxFalconResult" where
  "CreateUserAction_catch C actionResult rejected =
     (let executorResult = wrapRejectedPromise C rejected ''hybrid:createUser'' EXECUTOR
      in case addChild C actionResult executorResult of
           (r, None) \<Rightarrow> Inr r
         | (r, Some t) \<Rightarrow> Inl t)"

definition CreateUserAction_settle ::
  "('n, 'c, 'x) collaborators \<Rightarrow> 'n SfdxFalconResult \<Rightarrow> 'x thrown + 'c
     \<Rightarrow> 'x thrown + 'n SfdxFalconResult" where
  "CreateUserAction_settle C actionResult outcome =
     (case outcome of
        Inr executorResult \<Rightarrow>
          (case addChild C actionResult executorResult of
             (r, None) \<Rightarrow> Inr r
           | (r, Some t) \<Rightarrow> CreateUserAction_catch C r t)
      | Inl rejected \<Rightarrow> CreateUserAction_catch C actionResult rejected)"

definition CreateUserAction_executeAction ::
  "('n, 'c, 'x) collaborators \<Rightarrow> AppxEngineActionContext \<Rightarrow> jsval
     \<Rightarrow> 'x thrown + 'n SfdxFalconResult" where
  "CreateUserAction_executeAction C actionContext options =
     bindE (CreateUserAction_executeAction_compose C actionContext options)
       (\<lambda>(actionResult, a).
          CreateUserAction_settle C actionResult
            (createUser C (arg_uniqueUsername a) (arg_defaultPassword a) (arg_userDefinition a)
               (arg_targetOrg a) (arg_executorMessages a) (arg_observer a)))"

section \<open>deploy-metadata\<close>

text \<open>
  \<^verbatim>\<open>DeployMetadataAction.executeAction\<close>, up to the call of the executor: the
  action's result and the SFDX command definition it composes. The three messages
  render the same option, so the rendering is done once: it gives the same text, or
  throws, each time. Node's \<^verbatim>\<open>path.join\<close> throws a \<^verbatim>\<open>TypeError\<close> on an argument
  that is not a string.
\<close>

definition DeployMetadataAction_executeAction_compose ::
  "('n, 'c, 'x) collaborators \<Rightarrow> AppxEngineActionContext \<Rightarrow> jsval
     \<Rightarrow> 'x thrown + ('n SfdxFalconResult \<times> jsval)" where
  "DeployMetadataAction_executeAction_compose C actionContext options =
     (let actionOptions = defaultOptions options;
          actionResult0 = createActionResult C actionContext actionOptions
            \<lparr>startNow = Some True, bubbleError = Some True, bubbleFailure = Some True,
             failureIsError = Some True\<rparr>;
          actionResult1 = actionResult0\<lparr>detail :=
            AList.update ''sfdxCommandDef'' JNull
              (AList.update ''executorMessages'' JNull (detail actionResult0))\<rparr>
      in
      bindE (getProp actionOptions ''mdapiSource'') (\<lambda>mdapiSource.
      bindE (ToString mdapiSource) (\<lambda>sourceText.
      let progressMsg = ''Deploying MDAPI source from '' @ squote sourceText;
          errorMsg = ''Deployment failed for MDAPI source '' @ squote sourceText;
          successMsg = ''Deployment of '' @ squote sourceText @ '' succeeded'';
          executorMessages = JObj
            [(''progressMsg'', JStr progressMsg), (''errorMsg'', JStr errorMsg),
             (''successMsg'', JStr successMsg)];
          actionResult2 = actionResult1\<lparr>detail :=
            AList.update ''executorMessages'' executorMessages (detail actionResult1)\<rparr>
      in
      bindE (case mdapiSource of
               JStr source \<Rightarrow>
                 Inr (path_join C (mdapiSourcePath (projectContext actionContext)) source)
             | _ \<Rightarrow> Inl TypeError) (\<lambda>deployDir.
      let sfdxCommandDef = JObj
            [(''command'', JStr ''force:mdapi:deploy''),
             (''progressMsg'', JStr progressMsg),
             (''errorMsg'', JStr errorMsg),
             (''successMsg'', JStr successMsg),
             (''observer'', observer (listrExecOptions actionContext)),
             (''commandArgs'', JArr [] []),
             (''commandFlags'', JObj
                [(''FLAG_TARGETUSERNAME'', JStr (alias (targetOrg actionContext))),
                 (''FLAG_DEPLOYDIR'', JStr deployDir),
                 (''FLAG_WAIT'', JNum 5),
                 (''FLAG_TESTLEVEL'', JStr ''NoTestRun''),
                 (''FLAG_JSON'', JBool True),
                 (''FLAG_LOGLEVEL'', JStr (logLevel actionContext))])];
          actionResult3 = actionResult2\<lparr>detail :=
            AList.update ''sfdxCommandDef'' sfdxCommandDef (detail actionResult2)\<rparr>
      in Inr (actionResult3, sfdxCommandDef)))))"

text \<open>
  The rest of \<^verbatim>\<open>executeAction\<close>: \<^verbatim>\<open>executeSfdxCommand(...).catch(...).then(...)\<close>.
  A rejection is added as a rejected child; when that returns, it returns the action's
  result itself, which the \<^verbatim>\<open>then\<close> handler recognises and passes on. A resolved
  value is added as a resolved child.
\<close>

definition DeployMetadataAction_settle ::
  "('n, 'c, 'x) collaborators \<Rightarrow> 'n SfdxFalconResult \<Rightarrow> 'x thrown + jsval
     \<Rightarrow> 'x thrown + 'n SfdxFalconResult" where
  "DeployMetadataAction_settle C actionResult outcome =
     (case outcome of
        Inl rejectedPromise \<Rightarrow>
          (case addRejectedChild C actionResult rejectedPromise EXECUTOR
                  ''sfdx:executeSfdxCommand'' of
             (r, Some t) \<Rightarrow> Inl t
           | (r, None) \<Rightarrow> Inr r)
      | Inr resolvedPromise \<Rightarrow>
          (case addResolvedChild C actionResult resolvedPromise EXECUTOR
                  ''sfdx:executeSfdxCommand'' of
             (r, Some t) \<Rightarrow> Inl t
           | (r, None) \<Rightarrow> Inr r))"

definition DeployMetadataAction_executeAction ::
  "('n, 'c, 'x) collaborators \<Rightarrow> AppxEngineActionContext \<Rightarrow> jsval
     \<Rightarrow> 'x thrown + 'n SfdxFalconResult" where
  "DeployMetadataAction_executeAction C actionContext options =
     bindE (DeployMetadataAction_executeAction_compose C actionContext options)
       (\<lambda>(actionResult, sfdxCommandDef).
          DeployMetadataAction_settle C actionResult (executeSfdxCommand C sfdxCommandDef))"

section \<open>delete-scratch-org\<close>






subsection \<open>Collaborators and a context for concrete runs\<close>

text \<open>
  An instance of the collaborators, to run the actions on concrete inputs: the
  configuration file holds \<open>config\<close>, no method of the result throws, and
  \<^verbatim>\<open>path.join\<close> puts a slash between two relative paths.
\<close>

definition stub_collaborators :: "jsval \<Rightarrow> (unit, unit, unit) collaborators" where
  "stub_collaborators config =
     \<lparr>createActionResult = (\<lambda>c opts ropts. \<lparr>detail = [], node = ()\<rparr>),
      throw_result = (\<lambda>r t. (r, Some t)),
      addChild = (\<lambda>r c. (r, None)),
      wrapRejectedPromise = (\<lambda>t s k. ()),
      addRejectedChild = (\<lambda>r t k s. (r, Some t)),
      addResolvedChild = (\<lambda>r v k s. (r, None)),
      readConfigFile = (\<lambda>p f. Inr config),
      createUniqueUsername = (\<lambda>u. bindE (ToString u) (\<lambda>name. Inr (name @ ''-0001''))),
      createUser = (\<lambda>u p d t m ob. Inr ()),
      executeSfdxCommand = (\<lambda>d. Inr (JObj [(''status'', JNum 0)])),
      path_join = (\<lambda>a b. a @ ''/'' @ b)\<rparr>"

definition sample_context :: AppxEngineActionContext where
  "sample_context =
     \<lparr>targetOrg = \<lparr>alias = ''demo-org''\<rparr>, devHubAlias = ''hub'',
      projectContext = \<lparr>configPath = ''config'', mdapiSourcePath = ''mdapi-source''\<rparr>,
      logLevel = ''error'', listrExecOptions = \<lparr>observer = JNull\<rparr>\<rparr>"

section \<open>The error classes of the recipe module\<close>

text \<open>
  An instance of \<^verbatim>\<open>SfdxFalconError2\<close>: the properties its parent's constructor
  (\<^verbatim>\<open>SfdxError\<close>, of the Salesforce core library) stores as they are given, and the
  class's own stack and data.
\<close>

record SfdxFalconError2 =
  err_name :: string
  err_message :: string
  err_actions :: "string list"
  err_exitCode :: int
  err_data :: jsval
  falconStack :: string
  falconData :: jsval

text \<open>
  \<^verbatim>\<open>constructor(message, name?, actions=[], exitCode=1, cause={})\<close>; an argument left
  out is \<open>None\<close>. The name defaults when it is left out or empty.
\<close>

definition SfdxFalconError2_constructor ::
  "string \<Rightarrow> string option \<Rightarrow> string list option \<Rightarrow> int option \<Rightarrow> SfdxFalconError2" where
  "SfdxFalconError2_constructor message name actions exitCode =
     (let thisName = (case name of
                        None \<Rightarrow> ''SfdxFalconError2''
                      | Some n \<Rightarrow> if n = [] then ''SfdxFalconError2'' else n)
      in \<lparr>err_name = thisName, err_message = message,
          err_actions = (case actions of None \<Rightarrow> [] | Some a \<Rightarrow> a),
          err_exitCode = (case exitCode of None \<Rightarrow> 1 | Some c \<Rightarrow> c),
          err_data = JObj [],
          falconStack = thisName @ '': '' @ message,
          falconData = JObj []\<rparr>)"

definition addToStack ::
  "string option \<Rightarrow> 'a SfdxFalconError2_scheme \<Rightarrow> 'a SfdxFalconError2_scheme" where
  "addToStack stackItem this =
     (let item = (case stackItem of
                    None \<Rightarrow> ''at UNSPECIFIED result from UNKNOWN''
                  | Some i \<Rightarrow> i);
          indent = ''    ''
      in this\<lparr>falconStack := falconStack this @ [CHR 0x0A] @ indent @ item\<rparr>)"

text \<open>
  An \<^verbatim>\<open>SfdxCliError\<close> is an \<^verbatim>\<open>SfdxFalconError2\<close> with the object
  \<^verbatim>\<open>cliError\<close>, here the list of the properties assigned to it.
\<close>

record SfdxCliError = SfdxFalconError2 +
  cliError :: "(string \<times> jsval) list"

subsection \<open>Wrapping a foreign error\<close>

text \<open>
  What \<^verbatim>\<open>wrap\<close> is given. An error object has an identity, so that the same object
  can be told from an equal one: \<^verbatim>\<open>instanceof SfdxFalconError2\<close> holds of an
  instance of the class or of its subclass \<^verbatim>\<open>SfdxCliError\<close>, \<^verbatim>\<open>instanceof Error\<close>
  of these and of any other error, of which only name and message are read. Any other
  value is one that is not an \<^verbatim>\<open>Error\<close>.
\<close>

datatype error_object =
    OtherError string string
  | FalconError SfdxFalconError2
  | CliError SfdxCliError

datatype js_thrown =
    ErrorObject nat error_object
  | NotAnError jsval

fun instanceof_SfdxFalconError2 :: "js_thrown \<Rightarrow> bool" where
  "instanceof_SfdxFalconError2 (ErrorObject i (FalconError e)) = True"
| "instanceof_SfdxFalconError2 (ErrorObject i (CliError e)) = True"
| "instanceof_SfdxFalconError2 x = False"

fun instanceof_Error :: "js_thrown \<Rightarrow> bool" where
  "instanceof_Error (ErrorObject i e) = True"
| "instanceof_Error (NotAnError v) = False"

fun error_name :: "error_object \<Rightarrow> string" where
  "error_name (OtherError n m) = n"
| "error_name (FalconError e) = err_name e"
| "error_name (CliError e) = err_name e"

fun error_message :: "error_object \<Rightarrow> string" where
  "error_message (OtherError n m) = m"
| "error_message (FalconError e) = err_message e"
| "error_message (CliError e) = err_message e"

text \<open>
  \<^verbatim>\<open>SfdxFalconError2.wrap\<close>. The first argument is the identity the next object
  created will get; the function returns the error and the next free identity, or what
  it throws: the template literal \<^verbatim>\<open>`${error}`\<close> of the last branch throws when the
  value has no string rendering.
\<close>

fun wrap :: "nat \<Rightarrow> js_thrown \<Rightarrow> 'x thrown + js_thrown \<times> nat" where
  "wrap fresh (ErrorObject i (FalconError e)) = Inr (ErrorObject i (FalconError e), fresh)"
| "wrap fresh (ErrorObject i (CliError e)) = Inr (ErrorObject i (CliError e), fresh)"
| "wrap fresh (ErrorObject i (OtherError n m)) =
     Inr (ErrorObject fresh (FalconError
            (SfdxFalconError2_constructor m (Some (''SfdxFalconError2 ('' @ n @ '')''))
               None None)),
          Suc fresh)"
| "wrap fresh (NotAnError v) =
     bindE (ToString v) (\<lambda>rendering.
       Inr (ErrorObject fresh (FalconError
              (SfdxFalconError2_constructor rendering (Some ''SfdxFalconError2 (Unknown)'')
                 None None)),
            Suc fresh))"

subsection \<open>The error of a CLI call\<close>

text \<open>
  The constructor of \<^verbatim>\<open>SfdxCliError\<close> assigns the properties of \<^verbatim>\<open>cliError\<close> one
  by one inside \<^verbatim>\<open>try\<close>, and again inside \<^verbatim>\<open>catch\<close>. A statement is a step on
  the properties assigned so far: it returns them as it leaves them, with the value it
  throws, if it throws.
\<close>

type_synonym 'x step = "(string \<times> jsval) list \<Rightarrow> (string \<times> jsval) list \<times> 'x thrown option"

definition assign :: "string \<Rightarrow> 'x thrown + jsval \<Rightarrow> 'x step" where
  "assign k rhs props =
     (case rhs of Inl t \<Rightarrow> (props, Some t) | Inr v \<Rightarrow> (AList.update k v props, None))"

definition seq :: "'x step \<Rightarrow> 'x step \<Rightarrow> 'x step" where
  "seq a b props = (case a props of (p, Some t) \<Rightarrow> (p, Some t) | (p, None) \<Rightarrow> b p)"

definition try_catch :: "'x step \<Rightarrow> 'x step \<Rightarrow> 'x step" where
  "try_catch body handler props =
     (case body props of (p, Some t) \<Rightarrow> handler p | (p, None) \<Rightarrow> (p, None))"

text \<open>
  \<^verbatim>\<open>JSON.parse\<close> is the platform's: a parameter, which returns the value the text
  denotes or throws a \<^verbatim>\<open>SyntaxError\<close>. The second parameter is the stderr buffer,
  the third the message, \<open>None\<close> when the caller leaves it out. The last statement of
  the constructor, after \<^verbatim>\<open>try\<close> and \<^verbatim>\<open>catch\<close>, renders the name and the message
  of \<^verbatim>\<open>cliError\<close> in a template literal; what that throws, the constructor throws.
\<close>

definition SfdxCliError_try :: "(string \<Rightarrow> 'x thrown + jsval) \<Rightarrow> string \<Rightarrow> string \<Rightarrow> 'x step" where
  "SfdxCliError_try JSON_parse stdErrBuffer thisName props =
     (case JSON_parse stdErrBuffer of
        Inl t \<Rightarrow> (props, Some t)
      | Inr parsedError \<Rightarrow>
          seq (assign ''name'' (bindE (getProp parsedError ''name'')
                 (\<lambda>v. Inr (js_or v (JStr ''Unknown CLI Error'')))))
         (seq (assign ''message'' (bindE (getProp parsedError ''message'')
                 (\<lambda>v. Inr (js_or v (JStr ''Unknown CLI Error'')))))
         (seq (assign ''status'' (bindE (getProp parsedError ''status'')
                 (\<lambda>v. if v \<noteq> JUndefined then getProp parsedError ''status'' else Inr (JNum 1))))
         (seq (assign ''stack'' (bindE (getProp parsedError ''stack'')
                 (\<lambda>v. Inr (js_or v (JStr thisName)))))
         (seq (assign ''result'' (bindE (getProp parsedError ''result'')
                 (\<lambda>v. Inr (js_or v (JObj [])))))
              (assign ''warnings'' (bindE (getProp parsedError ''warnings'')
                 (\<lambda>v. Inr (js_or v (JArr [] [])))))))))
          props)"

definition SfdxCliError_catch :: "string \<Rightarrow> 'x step" where
  "SfdxCliError_catch stdErrBuffer =
     seq (assign ''name'' (Inr (JStr ''ERROR_NOT_PARSEABLE'')))
    (seq (assign ''message'' (Inr (JStr
            (''Unparseable CLI Error (see '' @ squote ''cliError.result.rawResult''
               @ '' for raw error)''))))
    (seq (assign ''status'' (Inr (JNum 999)))
    (seq (assign ''stack'' (Inr (JStr
            (''Unparseable CLI Error (see '' @ squote ''cliError.result.rawResult''
               @ '' for raw error)''))))
    (seq (assign ''result'' (Inr (JObj [(''rawResult'', JStr stdErrBuffer)])))
         (assign ''warnings'' (Inr (JArr [] [])))))))"

definition SfdxCliError_constructor ::
  "(string \<Rightarrow> 'x thrown + jsval) \<Rightarrow> string \<Rightarrow> string option \<Rightarrow> 'x thrown + SfdxCliError" where
  "SfdxCliError_constructor JSON_parse stdErrBuffer message =
     (let msg = (case message of None \<Rightarrow> ''Unknown CLI Error'' | Some m \<Rightarrow> m);
          super = SfdxFalconError2_constructor (''ERROR_SALESFORCE_CLI: '' @ msg)
                    (Some ''SfdxCliError'') None None;
          this0 = SfdxFalconError2.extend super \<lparr>cliError = []\<rparr>;
          props = fst (try_catch (SfdxCliError_try JSON_parse stdErrBuffer (err_name this0))
                         (SfdxCliError_catch stdErrBuffer) (cliError this0));
          this1 = this0\<lparr>cliError := props\<rparr>
      in bindE (ToString (lookup props ''name'')) (\<lambda>nameText.
         bindE (ToString (lookup props ''message'')) (\<lambda>messageText.
           Inr (addToStack (Some (nameText @ '': '' @ messageText)) this1))))"

text \<open>The properties the \<^verbatim>\<open>catch\<close> block gives \<^verbatim>\<open>cliError\<close>.\<close>

definition unparseable :: "string \<Rightarrow> (string \<times> jsval) list" where
  "unparseable stdErrBuffer =
     [(''name'', JStr ''ERROR_NOT_PARSEABLE''),
      (''message'', JStr (''Unparseable CLI Error (see '' @ squote ''cliError.result.rawResult''
                            @ '' for raw error)'')),
      (''status'', JNum 999),
      (''stack'', JStr (''Unparseable CLI Error (see '' @ squote ''cliError.result.rawResult''
                            @ '' for raw error)'')),
      (''result'', JObj [(''rawResult'', JStr stdErrBuffer)]),
      (''warnings'', JArr [] [])]"

section \<open>Regular expressions\<close>

text \<open>
  The regular expressions of the code, as far as it uses them: single characters,
  character classes, sequence, alternation, the greedy quantifiers \<^verbatim>\<open>?\<close> and
  \<^verbatim>\<open>*\<close> (\<^verbatim>\<open>+\<close> is one match followed by \<^verbatim>\<open>*\<close>), the anchors \<^verbatim>\<open>^\<close> and
  \<^verbatim>\<open>$\<close> of a pattern without flags, and the empty pattern.
\<close>

datatype regex =
    Lit char
  | OneOf "char list"
  | Seq regex regex
  | Alt regex regex
  | Opt regex
  | Star regex
  | Bol
  | Eol
  | Eps

text \<open>
  A backtracking matcher. A position is the rest of the input, with whether it is the
  start of the input; \<open>step r\<close> lists the positions at which a match of \<open>r\<close> that
  starts at the given position can end, in the order in which backtracking tries them
  (a quantifier takes as much as it can first, and an iteration that consumes nothing
  is not repeated).
\<close>

fun step :: "regex \<Rightarrow> bool \<times> string \<Rightarrow> (bool \<times> string) list" where
  "step (Lit c) (b, s) =
     (case s of [] \<Rightarrow> [] | x # xs \<Rightarrow> if x = c then [(False, xs)] else [])"
| "step (OneOf cs) (b, s) =
     (case s of [] \<Rightarrow> [] | x # xs \<Rightarrow> if x \<in> set cs then [(False, xs)] else [])"
| "step (Seq p q) st = concat (map (step q) (step p st))"
| "step (Alt p q) st = step p st @ step q st"
| "step (Opt p) st = step p st @ [st]"
| "step (Star p) st =
     concat (map (\<lambda>st'. if length (snd st') < length (snd st) then step (Star p) st' else [])
                 (step p st)) @ [st]"
| "step Bol (b, s) = (if b then [(b, s)] else [])"
| "step Eol (b, s) = (if s = [] then [(b, s)] else [])"
| "step Eps st = [st]"

declare step.simps(6) [simp del]

definition Plus :: "regex \<Rightarrow> regex" where
  "Plus p = Seq p (Star p)"

fun seqs :: "regex list \<Rightarrow> regex" where
  "seqs [] = Eps"
| "seqs [p] = p"
| "seqs (p # q # ps) = Seq p (seqs (q # ps))"

definition lit :: "string \<Rightarrow> regex" where
  "lit s = seqs (map Lit s)"

text \<open>The class \<^verbatim>\<open>\w\<close>.\<close>

definition word_chars :: "char list" where
  "word_chars = ''ABCDEFGHIJKLMNOPQRSTUVWXYZabcdefghijklmnopqrstuvwxyz0123456789_''"

text \<open>The characters of a repository's name, \<^verbatim>\<open>(\w|-)\<close>.\<close>

definition name_char :: "char \<Rightarrow> bool" where
  "name_char c = (c \<in> set word_chars \<or> c = CHR ''-'')"

text \<open>
  \<^verbatim>\<open>r.exec(s)\<close> tries the offsets of \<open>s\<close> from the left and stops at the first one
  where a match starts; element 0 of its result is the text matched there, and the
  result is \<^verbatim>\<open>null\<close>, here \<open>None\<close>, when there is none. \<^verbatim>\<open>r.test(s)\<close> tells
  whether there is a match.
\<close>

fun first_match :: "regex \<Rightarrow> string \<Rightarrow> nat list \<Rightarrow> string option" where
  "first_match r s [] = None"
| "first_match r s (i # is) =
     (case step r (i = 0, drop i s) of
        [] \<Rightarrow> first_match r s is
      | (b, rest) # others \<Rightarrow> Some (take (length (drop i s) - length rest) (drop i s)))"

definition regex_exec :: "regex \<Rightarrow> string \<Rightarrow> string option" where
  "regex_exec r s = first_match r s [0..<Suc (length s)]"

definition regex_test :: "regex \<Rightarrow> string \<Rightarrow> bool" where
  "regex_test r s = (regex_exec r s \<noteq> None)"

section \<open>The Git utilities\<close>

text \<open>
  \<^verbatim>\<open>/\/(\w|-)+\.git\/*$/\<close> and
  \<^verbatim>\<open>/(^(git|ssh|http(s)?)|(git@[\w\.]+))(:(\/\/)?)([\w\.@\:\/\-~]+)(\.git)(\/)?$/\<close>.
\<close>

definition repoNameRegEx :: regex where
  "repoNameRegEx =
     seqs [Lit CHR ''/'', Plus (Alt (OneOf word_chars) (Lit CHR ''-'')), lit ''.git'',
           Star (Lit CHR ''/''), Eol]"

definition gitUriRegEx :: regex where
  "gitUriRegEx =
     seqs [Alt (Seq Bol (Alt (lit ''git'') (Alt (lit ''ssh'') (Seq (lit ''http'') (Opt (Lit CHR ''s''))))))
               (Seq (lit ''git@'') (Plus (OneOf (word_chars @ ''.'')))),
           Seq (Lit CHR '':'') (Opt (lit ''//'')),
           Plus (OneOf (word_chars @ ''.@:/-~'')),
           lit ''.git'',
           Opt (Lit CHR ''/''),
           Eol]"

text \<open>
  The string methods used: \<^verbatim>\<open>s.lastIndexOf(c)\<close> is \<open>-1\<close> when \<open>c\<close> does not
  occur; \<^verbatim>\<open>s.substring(a, b)\<close> clamps both indices to the string and swaps them when
  the first is the larger; \<^verbatim>\<open>s.substr(a)\<close>, for an index that is not negative, is the
  rest of the string from there.
\<close>

definition lastIndexOf :: "string \<Rightarrow> char \<Rightarrow> int" where
  "lastIndexOf s c =
     (if c \<in> set s then int (length s - 1 - length (takeWhile (\<lambda>x. x \<noteq> c) (rev s)))
      else - 1)"

definition substring :: "string \<Rightarrow> int \<Rightarrow> int \<Rightarrow> string" where
  "substring s a b =
     (let a' = nat (min (max a 0) (int (length s)));
          b' = nat (min (max b 0) (int (length s)))
      in take (max a' b' - min a' b') (drop (min a' b') s))"

definition substr :: "string \<Rightarrow> nat \<Rightarrow> string" where
  "substr s a = drop a s"

text \<open>\<^verbatim>\<open>typeof x\<close>.\<close>

fun typeof :: "jsval \<Rightarrow> string" where
  "typeof JUndefined = ''undefined''"
| "typeof JNull = ''object''"
| "typeof (JBool b) = ''boolean''"
| "typeof (JNum n) = ''number''"
| "typeof (JStr s) = ''string''"
| "typeof (JArr xs ps) = ''object''"
| "typeof (JObj kvs) = ''object''"

text \<open>\<^verbatim>\<open>new SfdxFalconError(message, name, source)\<close>, as the utilities throw it.\<close>

datatype falcon_error = SfdxFalconError string string string

definition dbgNs :: string where
  "dbgNs = ''UTILITY:git:''"

text \<open>
  \<^verbatim>\<open>getRepoNameFromUri\<close>. Indexing the \<^verbatim>\<open>null\<close> that \<^verbatim>\<open>exec\<close> returns when
  nothing matches throws the engine's \<^verbatim>\<open>TypeError\<close>.
\<close>

definition getRepoNameFromUri :: "jsval \<Rightarrow> falcon_error thrown + string" where
  "getRepoNameFromUri gitRemoteUri =
     (case gitRemoteUri of
        JStr uri \<Rightarrow>
          (case regex_exec repoNameRegEx uri of
             None \<Rightarrow> Inl TypeError
           | Some match0 \<Rightarrow>
               (let repoName1 = substring match0 0 (lastIndexOf match0 CHR ''.'');
                    repoName2 = substr repoName1 1
                in if repoName2 = []
                   then Inl (Foreign (SfdxFalconError
                          ''Repository name could not be parsed from the Git Remote URI.''
                          ''UnreadableRepoName'' (dbgNs @ ''getRepoNameFromUri'')))
                   else Inr repoName2))
      | _ \<Rightarrow> Inl (Foreign (SfdxFalconError
                 (''Expected string for gitRemoteUri but got '' @ squote (typeof gitRemoteUri))
                 ''TypeError'' (dbgNs @ ''getRepoNameFromUri''))))"

text \<open>
  \<^verbatim>\<open>isGitUriValid\<close>. The optional \<^verbatim>\<open>acceptedProtocols\<close> is given by what its
  \<^verbatim>\<open>test\<close> method answers; \<open>None\<close> when the caller leaves it out.
\<close>

definition isGitUriValid ::
  "jsval \<Rightarrow> (string \<Rightarrow> bool) option \<Rightarrow> falcon_error thrown + bool" where
  "isGitUriValid gitRemoteUri acceptedProtocols =
     (case gitRemoteUri of
        JStr uri \<Rightarrow>
          (if regex_test gitUriRegEx uri
           then (case acceptedProtocols of
                   Some protocols \<Rightarrow> Inr (protocols uri)
                 | None \<Rightarrow> Inr True)
           else Inr False)
      | _ \<Rightarrow> Inl (Foreign (SfdxFalconError
                 (''Expected string for gitRemoteUri but got '' @ squote (typeof gitRemoteUri))
                 ''TypeError'' (dbgNs @ ''isGitUriValid''))))"

text \<open>
  The tails the repository-name pattern matches: a slash, a name of one or more word
  characters and hyphens, \<^verbatim>\<open>.git\<close>, and then slashes only.
\<close>

definition repo_tail :: "string \<Rightarrow> string \<Rightarrow> bool" where
  "repo_tail t name \<longleftrightarrow> name \<noteq> [] \<and> (\<forall>c \<in> set name. name_char c)
      \<and> (\<exists>sl. t = CHR ''/'' # name @ ''.git'' @ sl \<and> (\<forall>c \<in> set sl. c = CHR ''/''))"

section \<open>The command falcon:demo:deploy\<close>

text \<open>
  The JSON response of the command: a status and a result, which is a text or the
  status report of a validation.
\<close>

datatype 'r response_result =
    ResultText string
  | ResultReport 'r

record 'r FalconJsonResponse =
  status :: int
  result :: "'r response_result"

text \<open>
  An \<^verbatim>\<open>SfdxErrorConfig\<close> of the Salesforce core library, as \<^verbatim>\<open>onError\<close> builds
  it: the three names it is constructed with, the tokens \<^verbatim>\<open>setErrorTokens\<close> sets and
  the actions \<^verbatim>\<open>addAction\<close> sets, a map from action keys to tokens in the order in
  which the keys were first set.
\<close>

record SfdxErrorConfig =
  packageName :: string
  bundleName :: string
  errorKey :: string
  errorTokens :: "jsval list"
  errorActions :: "(string \<times> string list) list"

definition setErrorTokens :: "jsval list \<Rightarrow> SfdxErrorConfig \<Rightarrow> SfdxErrorConfig" where
  "setErrorTokens tokens config = config\<lparr>errorTokens := tokens\<rparr>"

definition addAction :: "string \<Rightarrow> string list \<Rightarrow> SfdxErrorConfig \<Rightarrow> SfdxErrorConfig" where
  "addAction actionKey actionTokens config =
     config\<lparr>errorActions := AList.update actionKey actionTokens (errorActions config)\<rparr>"

text \<open>
  What the command throws beyond the engine's errors: the \<^verbatim>\<open>SfdxError\<close> that
  \<^verbatim>\<open>SfdxError.create\<close> makes of a configuration, with the command name set on it.
\<close>

datatype deploy_error = SfdxError_created SfdxErrorConfig string

text \<open>
  The state of the command object that \<^verbatim>\<open>run\<close> and its handlers write.
\<close>

record 'r FalconDemoDeploy =
  statusReport :: "'r option"
  jsonResponse :: "'r FalconJsonResponse"

text \<open>
  \<^verbatim>\<open>onSuccess\<close> stores the report and the response; its two last lines only print.
\<close>

definition onSuccess :: "'r \<Rightarrow> 'r FalconDemoDeploy \<Rightarrow> 'r FalconDemoDeploy" where
  "onSuccess report this =
     this\<lparr>statusReport := Some report,
          jsonResponse := \<lparr>status = 0, result = ResultReport report\<rparr>\<rparr>"

text \<open>
  \<^verbatim>\<open>onError\<close> builds the error configuration from the rejection and throws the
  \<^verbatim>\<open>SfdxError\<close> made of it, unless a statement on the way throws first. The
  \<^verbatim>\<open>switch (true)\<close> takes the first case whose pattern occurs in the message of the
  standard error; \<^verbatim>\<open>test\<close> renders that message as a string, each time to the same
  text, so the rendering is done once.
\<close>

definition onError :: "jsval \<Rightarrow> deploy_error thrown + unit" where
  "onError falconError =
     (let sfdxErrorConfig0 =
            \<lparr>packageName = ''sfdx-falcon'', bundleName = ''falconErrorMessages'',
             errorKey = ''errDefault'', errorTokens = [], errorActions = []\<rparr>
      in
      bindE (getProp falconError ''stdErrJson'') (\<lambda>stdError.
      bindE (getProp falconError ''message'') (\<lambda>falconMessage.
      bindE (getProp stdError ''message'') (\<lambda>stdMessage.
      let sfdxErrorConfig1 = setErrorTokens [falconMessage, stdMessage] sfdxErrorConfig0 in
      bindE (ToString stdMessage) (\<lambda>messageText.
      let sfdxErrorConfig2 =
            (if regex_test (lit ''VMC_DEV_TEST1'') messageText
             then addAction ''actionDevTest2'' [''TEST_TWO'']
                    (addAction ''actionDevTest1'' [''TEST_ONE''] sfdxErrorConfig1)
             else if regex_test (lit ''VMC_DEV_TEST2'') messageText
             then addAction ''actionDevTest2'' [''TEST_THREE''] sfdxErrorConfig1
             else if regex_test (lit ''VMC_DEV_TEST3'') messageText
             then addAction ''actionDevTest2'' [''TEST_FOUR''] sfdxErrorConfig1
             else sfdxErrorConfig1)
      in Inl (Foreign (SfdxError_created sfdxErrorConfig2 ''falcon:demo:deploy'')))))))"

text \<open>
  The flags of the command, \<open>None\<close> when the user did not give one, and the code
  \<^verbatim>\<open>run\<close> calls that lives in other modules: the path validator,
  Node's \<^verbatim>\<open>path.resolve\<close>, the project's resolution and the validation of the demo,
  each of the last two given by what its promise settles with.
\<close>

record DeployFlags =
  deploydir :: "string option"
  falcondebug :: "bool option"

record ('p, 'r) deploy_collaborators =
  validateLocalPath :: "string \<Rightarrow> bool"
  path_resolve :: "string \<Rightarrow> string"
  AppxDemoProject_resolve :: "string \<Rightarrow> bool \<Rightarrow> deploy_error thrown + 'p"
  validateDemo :: "'p \<Rightarrow> jsval + 'r"

text \<open>
  \<^verbatim>\<open>run\<close>. The promise of the validation is followed by
  \<^verbatim>\<open>.then(onSuccess).catch(onError)\<close>; awaiting it throws what \<^verbatim>\<open>onError\<close> throws.
  The function resolves with the response the command object then holds.
\<close>

definition deployDirFlag :: "DeployFlags \<Rightarrow> string" where
  "deployDirFlag flags =
     (case deploydir flags of None \<Rightarrow> ''.'' | Some d \<Rightarrow> if d = [] then ''.'' else d)"

definition debugModeFlag :: "DeployFlags \<Rightarrow> bool" where
  "debugModeFlag flags = (case falcondebug flags of None \<Rightarrow> False | Some b \<Rightarrow> b)"

definition run ::
  "('p, 'r) deploy_collaborators \<Rightarrow> DeployFlags \<Rightarrow> deploy_error thrown + 'r FalconJsonResponse" where
  "run D flags =
     (let this0 = \<lparr>statusReport = None,
                   jsonResponse = \<lparr>status = 1, result = ResultText ''ERROR_RESPONSE_NOT_SET''\<rparr>\<rparr>
      in
      if validateLocalPath D (deployDirFlag flags) = False
      then Inl (Error (''Deploy Directory can not begin with a ~, have unescaped spaces, ''
                 @ ''or contain these invalid characters ('' @ [CHR 0x27, CHR '' '', CHR 0x22]
                 @ '' * |)''))
      else
      bindE (AppxDemoProject_resolve D (path_resolve D (deployDirFlag flags)) (debugModeFlag flags))
        (\<lambda>appxDemoProject.
      bindE (case validateDemo D appxDemoProject of
               Inr report \<Rightarrow> Inr (onSuccess report this0)
             | Inl falconError \<Rightarrow> bindE (onError falconError) (\<lambda>u. Inr this0))
        (\<lambda>this1. Inr (jsonResponse this1))))"

text \<open>
  Collaborators for concrete runs: every path is valid, the project resolves, and the
  validation settles with the given outcome.
\<close>

definition stub_deploy_collaborators :: "jsval + string \<Rightarrow> (unit, string) deploy_collaborators" where
  "stub_deploy_collaborators outcome =
     \<lparr>validateLocalPath = (\<lambda>p. True), path_resolve = (\<lambda>p. ''/work/'' @ p),
      AppxDemoProject_resolve = (\<lambda>p d. Inr ()), validateDemo = (\<lambda>p. outcome)\<rparr>"

section \<open>Properties of the actions\<close>

lemma getProp_value:
  "v \<noteq> JNull \<Longrightarrow> v \<noteq> JUndefined \<Longrightarrow> getProp v k = Inr (own_property v k)"
  by (cases v) simp_all

lemma map_of_update_same: "map_of (AList.update k v al) k = Some v"
  by (simp add: update_conv')

lemma bindE_Inr_iff: "bindE m f = Inr y \<longleftrightarrow> (\<exists>a. m = Inr a \<and> f a = Inr y)"
  by (cases m) simp_all

text \<open>Rendering a value as a string throws nothing but a \<^verbatim>\<open>TypeError\<close>.\<close>

lemma ToString_join_elements_throw:
  "ToString v = (Inl t :: 'x thrown + string) \<Longrightarrow> t = TypeError"
  "join_elements vs = (Inl t :: 'x thrown + string) \<Longrightarrow> t = TypeError"
proof (induction v and vs rule: ToString_join_elements.induct)
  case (10 x y ys)
  show ?case
  proof (cases "x = JUndefined \<or> x = JNull")
    case True
    with 10 show ?thesis
      by (cases "join_elements (y # ys) :: 'x thrown + string") auto
  next
    case False
    with 10 show ?thesis
      by (cases "ToString x :: 'x thrown + string";
          cases "join_elements (y # ys) :: 'x thrown + string") auto
  qed
qed (auto split: if_splits)

lemma ToString_throws_TypeError: "ToString v = (Inl t :: 'x thrown + string) \<Longrightarrow> t = TypeError"
  by (rule ToString_join_elements_throw(1))

text \<open>
  C8. \<^verbatim>\<open>determineDefaultPassword\<close> returns \<^verbatim>\<open>1HappyCloud\<close> for every falsy
  suggested password, the empty string and the absent password (\<^verbatim>\<open>undefined\<close>) among
  them; it never returns the empty string, and for a suggested password of its declared
  type, a string or an absent one, what it returns is a non-empty string.
\<close>

theorem determineDefaultPassword_nonempty:
  "(\<not> truthy v \<longrightarrow> determineDefaultPassword v = JStr ''1HappyCloud'')
   \<and> determineDefaultPassword (JStr []) = JStr ''1HappyCloud''
   \<and> determineDefaultPassword JUndefined = JStr ''1HappyCloud''
   \<and> determineDefaultPassword v \<noteq> JStr []
   \<and> truthy (determineDefaultPassword v)
   \<and> (v = JUndefined \<or> (\<exists>s. v = JStr s) \<longrightarrow>
        (\<exists>s. determineDefaultPassword v = JStr s \<and> s \<noteq> []))"
  by (cases v) (auto simp: determineDefaultPassword_def)

theorem determineDefaultPassword_nonempty_witness:
  "\<not> truthy (JStr []) \<and> determineDefaultPassword (JStr []) = JStr ''1HappyCloud''
   \<and> (\<exists>s. determineDefaultPassword (JStr []) = JStr s \<and> s \<noteq> [])"
  using determineDefaultPassword_nonempty [of "JStr []"] by simp

text \<open>
  C2, as the code has it. \<^verbatim>\<open>CreateUserAction.validateActionOptions\<close> is a function
  of the options alone: on an options object it throws the error naming
  \<^verbatim>\<open>definitionFile\<close> when that option is missing (absent, or \<^verbatim>\<open>undefined\<close>),
  otherwise the error naming \<^verbatim>\<open>sfdxUserAlias\<close> when that one is missing, and returns
  normally when both are there. The second required key is \<^verbatim>\<open>sfdxUserAlias\<close>, not
  \<^verbatim>\<open>userAlias\<close>.
\<close>

theorem CreateUserAction_validateActionOptions_keys:
  "CreateUserAction_validateActionOptions (JObj kvs) =
     (if map_of kvs ''definitionFile'' = None \<or> map_of kvs ''definitionFile'' = Some JUndefined
      then Inl (Error (''ERROR_MISSING_OPTION: '' @ squote ''definitionFile''))
      else if map_of kvs ''sfdxUserAlias'' = None \<or> map_of kvs ''sfdxUserAlias'' = Some JUndefined
      then Inl (Error (''ERROR_MISSING_OPTION: '' @ squote ''sfdxUserAlias''))
      else Inr ())"
  by (auto simp: CreateUserAction_validateActionOptions_def lookup_def
      split: option.splits)

text \<open>
  Options that hold both \<^verbatim>\<open>definitionFile\<close> and \<^verbatim>\<open>userAlias\<close> are refused: the
  error names \<^verbatim>\<open>sfdxUserAlias\<close>.
\<close>

theorem CreateUserAction_validateActionOptions_userAlias_counterexample:
  "CreateUserAction_validateActionOptions
     (JObj [(''definitionFile'', JStr ''user.json''), (''userAlias'', JStr ''demo-user'')])
   = (Inl (Error (''ERROR_MISSING_OPTION: '' @ squote ''sfdxUserAlias'')) :: unit thrown + unit)"
  by (simp add: CreateUserAction_validateActionOptions_def lookup_def)

lemma CreateUserAction_compose_ok:
  fixes C :: "('n, 'c, 'x) collaborators"
  assumes "getProp (defaultOptions options) ''definitionFile'' = (Inr f :: 'x thrown + jsval)"
    and "readConfigFile C (configPath (projectContext ctx)) f = Inr (JObj kvs)"
    and "createUniqueUsername C (lookup kvs ''Username'') = Inr u"
  shows "\<exists>r a. CreateUserAction_executeAction_compose C ctx options = Inr (r, a)
      \<and> arg_defaultPassword a = determineDefaultPassword (lookup kvs ''password'')
      \<and> map_of (detail r) ''defaultPassword''
          = Some (determineDefaultPassword (lookup kvs ''password''))"
  using assms
  unfolding CreateUserAction_executeAction_compose_def Let_def
  by (simp add: map_of_update_same update_conv')

text \<open>
  C3, as the code has it. In every execution of create-user's \<^verbatim>\<open>executeAction\<close> in
  which the definition file is read as an object and a unique username is derived, the
  action reaches the executor, and what it hands on is as follows. When the definition has no \<^verbatim>\<open>password\<close> field, the
  helper returns \<^verbatim>\<open>1HappyCloud\<close>, and that is the password given to the executor and
  the \<^verbatim>\<open>defaultPassword\<close> of the action result's detail. When the definition
  supplies a truthy password (a non-empty string), the helper returns it as it is, and
  it is the password given to the executor and recorded in the detail.
\<close>

theorem CreateUserAction_defaultPassword:
  fixes C :: "('n, 'c, 'x) collaborators"
  assumes "getProp (defaultOptions options) ''definitionFile'' = (Inr f :: 'x thrown + jsval)"
    and "readConfigFile C (configPath (projectContext ctx)) f = Inr (JObj kvs)"
    and "createUniqueUsername C (lookup kvs ''Username'') = Inr u"
  shows "\<exists>r a. CreateUserAction_executeAction_compose C ctx options = Inr (r, a)
      \<and> CreateUserAction_executeAction C ctx options =
          CreateUserAction_settle C r
            (createUser C (arg_uniqueUsername a) (arg_defaultPassword a) (arg_userDefinition a)
               (arg_targetOrg a) (arg_executorMessages a) (arg_observer a))
      \<and> (map_of kvs ''password'' = None \<longrightarrow>
            determineDefaultPassword JUndefined = JStr ''1HappyCloud''
          \<and> arg_defaultPassword a = JStr ''1HappyCloud''
          \<and> map_of (detail r) ''defaultPassword'' = Some (JStr ''1HappyCloud''))
      \<and> (\<forall>p. map_of kvs ''password'' = Some p \<longrightarrow> truthy p \<longrightarrow>
            determineDefaultPassword p = p
          \<and> arg_defaultPassword a = p
          \<and> map_of (detail r) ''defaultPassword'' = Some p)"
proof -
  from CreateUserAction_compose_ok [OF assms] obtain r a where
    c: "CreateUserAction_executeAction_compose C ctx options = Inr (r, a)"
    and a: "arg_defaultPassword a = determineDefaultPassword (lookup kvs ''password'')"
    and d: "map_of (detail r) ''defaultPassword''
          = Some (determineDefaultPassword (lookup kvs ''password''))"
    by blast
  have e: "CreateUserAction_executeAction C ctx options =
          CreateUserAction_settle C r
            (createUser C (arg_uniqueUsername a) (arg_defaultPassword a) (arg_userDefinition a)
               (arg_targetOrg a) (arg_executorMessages a) (arg_observer a))"
    by (simp add: CreateUserAction_executeAction_def c)
  have n: "map_of kvs ''password'' = None \<Longrightarrow>
      determineDefaultPassword (lookup kvs ''password'') = JStr ''1HappyCloud''"
    by (simp add: lookup_def determineDefaultPassword_def)
  have p: "\<And>p. map_of kvs ''password'' = Some p \<Longrightarrow> truthy p \<Longrightarrow>
      determineDefaultPassword (lookup kvs ''password'') = p"
    by (simp add: lookup_def determineDefaultPassword_def)
  have u: "determineDefaultPassword JUndefined = JStr ''1HappyCloud''"
    by (simp add: determineDefaultPassword_def)
  have q: "\<And>p. truthy p \<Longrightarrow> determineDefaultPassword p = p"
    by (simp add: determineDefaultPassword_def)
  show ?thesis
    using c e a d n p u q by (intro exI [of _ r] exI [of _ a]) simp
qed

theorem CreateUserAction_defaultPassword_witness:
  "map_of [(''Username'', JStr ''u@example.com'')] ''password'' = None
   \<and> (\<exists>r a. CreateUserAction_executeAction_compose
          (stub_collaborators (JObj [(''Username'', JStr ''u@example.com'')])) sample_context
          (JObj [(''definitionFile'', JStr ''user.json'')]) = Inr (r, a)
        \<and> arg_defaultPassword a = JStr ''1HappyCloud''
        \<and> map_of (detail r) ''defaultPassword'' = Some (JStr ''1HappyCloud''))"
proof -
  let ?C = "stub_collaborators (JObj [(''Username'', JStr ''u@example.com'')])"
  let ?o = "JObj [(''definitionFile'', JStr ''user.json'')]"
  have 1: "getProp (defaultOptions ?o) ''definitionFile''
      = (Inr (JStr ''user.json'') :: unit thrown + jsval)"
    by (simp add: defaultOptions_def lookup_def)
  have 2: "readConfigFile ?C (configPath (projectContext sample_context)) (JStr ''user.json'')
      = Inr (JObj [(''Username'', JStr ''u@example.com'')])"
    by (simp add: stub_collaborators_def)
  have 3: "createUniqueUsername ?C (lookup [(''Username'', JStr ''u@example.com'')] ''Username'')
      = Inr ''u@example.com-0001''"
    by (simp add: stub_collaborators_def lookup_def)
  show ?thesis
    using CreateUserAction_defaultPassword [OF 1 2 3] by auto
qed

text \<open>
  A definition that supplies the empty string as its password does not get it back:
  the helper returns \<^verbatim>\<open>1HappyCloud\<close>.
\<close>

theorem determineDefaultPassword_empty_counterexample:
  "getProp (JObj [(''Username'', JStr ''u@example.com''), (''password'', JStr '''')]) ''password''
     = (Inr (JStr '''') :: unit thrown + jsval)
   \<and> determineDefaultPassword (JStr '''') = JStr ''1HappyCloud''
   \<and> determineDefaultPassword (JStr '''') \<noteq> JStr ''''"
  by (simp add: determineDefaultPassword_def lookup_def)




text \<open>
  C4. Deploy-metadata's \<^verbatim>\<open>executeAction\<close> composes an SFDX command definition
  exactly when the \<^verbatim>\<open>mdapiSource\<close> option is a string, and then, in every invocation,
  the definition has the command \<^verbatim>\<open>force:mdapi:deploy\<close> and, among its flags, a wait
  of 5, the test level \<^verbatim>\<open>NoTestRun\<close> and \<^verbatim>\<open>FLAG_JSON\<close> true, and its deploy
  directory is \<^verbatim>\<open>path.join\<close> of the project's MDAPI source path and the option. This
  definition is recorded in the result's detail and is what the executor is run on.
\<close>

theorem DeployMetadataAction_command_definition:
  fixes C :: "('n, 'c, 'x) collaborators"
  shows "(\<forall>source. getProp (defaultOptions options) ''mdapiSource''
              = (Inr (JStr source) :: 'x thrown + jsval) \<longrightarrow>
      (\<exists>r props flags.
          DeployMetadataAction_executeAction_compose C ctx options = Inr (r, JObj props)
        \<and> map_of props ''command'' = Some (JStr ''force:mdapi:deploy'')
        \<and> map_of props ''commandFlags'' = Some (JObj flags)
        \<and> map_of flags ''FLAG_WAIT'' = Some (JNum 5)
        \<and> map_of flags ''FLAG_TESTLEVEL'' = Some (JStr ''NoTestRun'')
        \<and> map_of flags ''FLAG_JSON'' = Some (JBool True)
        \<and> map_of flags ''FLAG_DEPLOYDIR''
             = Some (JStr (path_join C (mdapiSourcePath (projectContext ctx)) source))
        \<and> map_of (detail r) ''sfdxCommandDef'' = Some (JObj props)
        \<and> DeployMetadataAction_executeAction C ctx options
             = DeployMetadataAction_settle C r (executeSfdxCommand C (JObj props))))
    \<and> (\<forall>r d. DeployMetadataAction_executeAction_compose C ctx options = Inr (r, d) \<longrightarrow>
          (\<exists>source. getProp (defaultOptions options) ''mdapiSource''
              = (Inr (JStr source) :: 'x thrown + jsval)))"
proof (intro conjI allI impI)
  fix source
  assume m: "getProp (defaultOptions options) ''mdapiSource''
      = (Inr (JStr source) :: 'x thrown + jsval)"
  then obtain r props where c:
    "DeployMetadataAction_executeAction_compose C ctx options = Inr (r, JObj props)"
    by (simp add: DeployMetadataAction_executeAction_compose_def Let_def)
  have e: "DeployMetadataAction_executeAction C ctx options
         = DeployMetadataAction_settle C r (executeSfdxCommand C (JObj props))"
    by (simp add: DeployMetadataAction_executeAction_def c)
  show "\<exists>r props flags.
          DeployMetadataAction_executeAction_compose C ctx options = Inr (r, JObj props)
        \<and> map_of props ''command'' = Some (JStr ''force:mdapi:deploy'')
        \<and> map_of props ''commandFlags'' = Some (JObj flags)
        \<and> map_of flags ''FLAG_WAIT'' = Some (JNum 5)
        \<and> map_of flags ''FLAG_TESTLEVEL'' = Some (JStr ''NoTestRun'')
        \<and> map_of flags ''FLAG_JSON'' = Some (JBool True)
        \<and> map_of flags ''FLAG_DEPLOYDIR''
             = Some (JStr (path_join C (mdapiSourcePath (projectContext ctx)) source))
        \<and> map_of (detail r) ''sfdxCommandDef'' = Some (JObj props)
        \<and> DeployMetadataAction_executeAction C ctx options
             = DeployMetadataAction_settle C r (executeSfdxCommand C (JObj props))"
    using c e m
    unfolding DeployMetadataAction_executeAction_compose_def Let_def
    by (auto simp: map_of_update_same)
next
  fix r d
  assume c: "DeployMetadataAction_executeAction_compose C ctx options = Inr (r, d)"
  obtain m where m: "getProp (defaultOptions options) ''mdapiSource'' = (Inr m :: 'x thrown + jsval)"
    using c
    by (cases "getProp (defaultOptions options) ''mdapiSource'' :: 'x thrown + jsval")
       (simp_all add: DeployMetadataAction_executeAction_compose_def Let_def)
  obtain source where "m = JStr source"
    using c m
    by (cases m)
       (auto simp: DeployMetadataAction_executeAction_compose_def Let_def bindE_Inr_iff)
  with m show "\<exists>source. getProp (defaultOptions options) ''mdapiSource''
      = (Inr (JStr source) :: 'x thrown + jsval)"
    by blast
qed

theorem DeployMetadataAction_command_definition_witness:
  "getProp (defaultOptions (JObj [(''mdapiSource'', JStr ''unpackaged/pre'')])) ''mdapiSource''
     = (Inr (JStr ''unpackaged/pre'') :: unit thrown + jsval)
   \<and> (\<exists>r props flags.
     DeployMetadataAction_executeAction_compose (stub_collaborators JNull) sample_context
       (JObj [(''mdapiSource'', JStr ''unpackaged/pre'')]) = Inr (r, JObj props)
   \<and> map_of props ''command'' = Some (JStr ''force:mdapi:deploy'')
   \<and> map_of props ''commandFlags'' = Some (JObj flags)
   \<and> map_of flags ''FLAG_WAIT'' = Some (JNum 5)
   \<and> map_of flags ''FLAG_TESTLEVEL'' = Some (JStr ''NoTestRun'')
   \<and> map_of flags ''FLAG_JSON'' = Some (JBool True)
   \<and> map_of flags ''FLAG_DEPLOYDIR'' = Some (JStr ''mdapi-source/unpackaged/pre''))"
proof -
  let ?C = "stub_collaborators JNull"
  let ?o = "JObj [(''mdapiSource'', JStr ''unpackaged/pre'')]"
  have g: "getProp (defaultOptions ?o) ''mdapiSource''
      = (Inr (JStr ''unpackaged/pre'') :: unit thrown + jsval)"
    by (simp add: defaultOptions_def lookup_def)
  have p: "path_join ?C (mdapiSourcePath (projectContext sample_context)) ''unpackaged/pre''
      = ''mdapi-source/unpackaged/pre''"
    by (simp add: stub_collaborators_def sample_context_def)
  from DeployMetadataAction_command_definition [of ?o ?C sample_context] g p show ?thesis
    by fastforce
qed

section \<open>Properties of the error classes\<close>


text \<open>
  C7, as the code has it. \<^verbatim>\<open>wrap\<close> normalises once and for all: whenever it returns,
  what it returns is an \<^verbatim>\<open>SfdxFalconError2\<close>, and wrapping that again returns it
  unchanged and creates nothing. An \<^verbatim>\<open>SfdxFalconError2\<close> is returned as the same
  object. Any other error yields a new \<^verbatim>\<open>SfdxFalconError2\<close> with the error's message,
  named after the error. A value that is not an error and has a string rendering yields
  a new one whose message is that rendering: a string itself, \<^verbatim>\<open>null\<close>,
  \<^verbatim>\<open>undefined\<close>, \<^verbatim>\<open>true\<close>, \<^verbatim>\<open>false\<close>, the digits of a number,
  \<^verbatim>\<open>[object Object]\<close> for a plain object without an own \<^verbatim>\<open>toString\<close> property
  and \<^verbatim>\<open>[object Array]\<close> for an array whose own property \<^verbatim>\<open>join\<close> hides the
  method. A value that is not an error and has no string rendering, a plain object or
  an array with an own \<^verbatim>\<open>toString\<close> property, which is not a function, makes
  \<^verbatim>\<open>wrap\<close> throw a \<^verbatim>\<open>TypeError\<close>.
\<close>

theorem wrap_idempotent:
  "(\<forall>y fresh'. wrap fresh x = (Inr (y, fresh') :: 'x thrown + js_thrown \<times> nat) \<longrightarrow>
        wrap fresh' y = (Inr (y, fresh') :: 'x thrown + js_thrown \<times> nat)
      \<and> instanceof_SfdxFalconError2 y)
   \<and> (instanceof_SfdxFalconError2 x \<longrightarrow>
        wrap fresh x = (Inr (x, fresh) :: 'x thrown + js_thrown \<times> nat))
   \<and> (\<forall>i e. x = ErrorObject i e \<and> \<not> instanceof_SfdxFalconError2 x \<longrightarrow>
         (\<exists>f. wrap fresh x
                 = (Inr (ErrorObject fresh (FalconError f), Suc fresh)
                      :: 'x thrown + js_thrown \<times> nat)
            \<and> err_message f = error_message e
            \<and> err_name f = ''SfdxFalconError2 ('' @ error_name e @ '')''))
   \<and> (\<forall>v s. x = NotAnError v \<and> ToString v = (Inr s :: 'x thrown + string) \<longrightarrow>
         (\<exists>f. wrap fresh x
                 = (Inr (ErrorObject fresh (FalconError f), Suc fresh)
                      :: 'x thrown + js_thrown \<times> nat)
            \<and> err_message f = s
            \<and> err_name f = ''SfdxFalconError2 (Unknown)''))
   \<and> (\<forall>v s. x = NotAnError v
          \<and> (v = JStr s \<or> v = JNull \<and> s = ''null'' \<or> v = JUndefined \<and> s = ''undefined''
               \<or> v = JBool True \<and> s = ''true'' \<or> v = JBool False \<and> s = ''false''
               \<or> (\<exists>n. v = JNum n \<and> s = show_int (sint n))
               \<or> (\<exists>kvs. v = JObj kvs \<and> \<not> has_own kvs ''toString'') \<and> s = ''[object Object]''
               \<or> (\<exists>xs ps. v = JArr xs ps \<and> \<not> has_own ps ''toString'' \<and> has_own ps ''join'')
                    \<and> s = ''[object Array]'')
         \<longrightarrow>
         (\<exists>f. wrap fresh x
                 = (Inr (ErrorObject fresh (FalconError f), Suc fresh)
                      :: 'x thrown + js_thrown \<times> nat)
            \<and> err_message f = s))
   \<and> (\<forall>v t. x = NotAnError v \<and> ToString v = (Inl t :: 'x thrown + string) \<longrightarrow>
         wrap fresh x = (Inl TypeError :: 'x thrown + js_thrown \<times> nat))
   \<and> (\<forall>kvs. x = NotAnError (JObj kvs) \<and> has_own kvs ''toString'' \<longrightarrow>
         wrap fresh x = (Inl TypeError :: 'x thrown + js_thrown \<times> nat))
   \<and> (\<forall>xs ps. x = NotAnError (JArr xs ps) \<and> has_own ps ''toString'' \<longrightarrow>
         wrap fresh x = (Inl TypeError :: 'x thrown + js_thrown \<times> nat))"
proof (cases x)
  case (ErrorObject i e)
  then show ?thesis
    by (cases e) (simp_all add: SfdxFalconError2_constructor_def)
next
  case (NotAnError v)
  have t: "\<And>t. ToString v = (Inl t :: 'x thrown + string) \<Longrightarrow>
      wrap fresh x = (Inl TypeError :: 'x thrown + js_thrown \<times> nat)"
    using NotAnError ToString_throws_TypeError [of v] by fastforce
  have r: "\<And>s. ToString v = (Inr s :: 'x thrown + string) \<Longrightarrow>
      wrap fresh x = (Inr (ErrorObject fresh (FalconError
          (SfdxFalconError2_constructor s (Some ''SfdxFalconError2 (Unknown)'') None None)),
          Suc fresh) :: 'x thrown + js_thrown \<times> nat)"
    using NotAnError by simp
  have 1: "\<forall>y fresh'. wrap fresh x = (Inr (y, fresh') :: 'x thrown + js_thrown \<times> nat) \<longrightarrow>
        wrap fresh' y = (Inr (y, fresh') :: 'x thrown + js_thrown \<times> nat)
      \<and> instanceof_SfdxFalconError2 y"
    using NotAnError by (auto simp: bindE_Inr_iff)
  have 4: "\<forall>v' s. x = NotAnError v' \<and> ToString v' = (Inr s :: 'x thrown + string) \<longrightarrow>
         (\<exists>f. wrap fresh x
                 = (Inr (ErrorObject fresh (FalconError f), Suc fresh)
                      :: 'x thrown + js_thrown \<times> nat)
            \<and> err_message f = s
            \<and> err_name f = ''SfdxFalconError2 (Unknown)'')"
    using NotAnError r by (auto simp: SfdxFalconError2_constructor_def)
  have 5: "\<forall>v' s. x = NotAnError v'
          \<and> (v' = JStr s \<or> v' = JNull \<and> s = ''null'' \<or> v' = JUndefined \<and> s = ''undefined''
               \<or> v' = JBool True \<and> s = ''true'' \<or> v' = JBool False \<and> s = ''false''
               \<or> (\<exists>n. v' = JNum n \<and> s = show_int (sint n))
               \<or> (\<exists>kvs. v' = JObj kvs \<and> \<not> has_own kvs ''toString'') \<and> s = ''[object Object]''
               \<or> (\<exists>xs ps. v' = JArr xs ps \<and> \<not> has_own ps ''toString'' \<and> has_own ps ''join'')
                    \<and> s = ''[object Array]'')
         \<longrightarrow>
         (\<exists>f. wrap fresh x
                 = (Inr (ErrorObject fresh (FalconError f), Suc fresh)
                      :: 'x thrown + js_thrown \<times> nat)
            \<and> err_message f = s)"
    using NotAnError by (auto simp: SfdxFalconError2_constructor_def)
  have 6: "\<forall>v' t. x = NotAnError v' \<and> ToString v' = (Inl t :: 'x thrown + string) \<longrightarrow>
         wrap fresh x = (Inl TypeError :: 'x thrown + js_thrown \<times> nat)"
    using NotAnError t by auto
  have 7: "\<forall>kvs. x = NotAnError (JObj kvs) \<and> has_own kvs ''toString'' \<longrightarrow>
         wrap fresh x = (Inl TypeError :: 'x thrown + js_thrown \<times> nat)"
    using NotAnError by auto
  have 8: "\<forall>xs ps. x = NotAnError (JArr xs ps) \<and> has_own ps ''toString'' \<longrightarrow>
         wrap fresh x = (Inl TypeError :: 'x thrown + js_thrown \<times> nat)"
    using NotAnError by auto
  from NotAnError 1 4 5 6 7 8 show ?thesis
    by simp
qed

theorem wrap_idempotent_witness:
  "\<not> instanceof_SfdxFalconError2 (ErrorObject 3 (OtherError ''TypeError'' ''x is not a function''))
   \<and> (\<exists>f. wrap 8 (ErrorObject 3 (OtherError ''TypeError'' ''x is not a function''))
            = (Inr (ErrorObject 8 (FalconError f), 9) :: unit thrown + js_thrown \<times> nat)
        \<and> err_message f = ''x is not a function''
        \<and> wrap 9 (ErrorObject 8 (FalconError f))
            = (Inr (ErrorObject 8 (FalconError f), 9) :: unit thrown + js_thrown \<times> nat))
   \<and> (\<exists>f. wrap 0 (NotAnError (JArr [JNum 42, JNull, JStr ''boom''] []))
            = (Inr (ErrorObject 0 (FalconError f), 1) :: unit thrown + js_thrown \<times> nat)
        \<and> err_message f = ''42,,boom''
        \<and> err_name f = ''SfdxFalconError2 (Unknown)''
        \<and> wrap 1 (ErrorObject 0 (FalconError f))
            = (Inr (ErrorObject 0 (FalconError f), 1) :: unit thrown + js_thrown \<times> nat))"
proof -
  have a: "ToString (JArr [JNum 42, JNull, JStr ''boom''] [])
      = (Inr ''42,,boom'' :: unit thrown + string)"
    by (simp add: has_own_def show_int_def digit_char_def)
  from wrap_idempotent
         [of 8 "ErrorObject 3 (OtherError ''TypeError'' ''x is not a function'')",
          where ?'x = unit]
  have 1: "\<exists>f. wrap 8 (ErrorObject 3 (OtherError ''TypeError'' ''x is not a function''))
            = (Inr (ErrorObject 8 (FalconError f), 9) :: unit thrown + js_thrown \<times> nat)
        \<and> err_message f = ''x is not a function''
        \<and> wrap 9 (ErrorObject 8 (FalconError f))
            = (Inr (ErrorObject 8 (FalconError f), 9) :: unit thrown + js_thrown \<times> nat)"
    by simp
  from wrap_idempotent
         [of 0 "NotAnError (JArr [JNum 42, JNull, JStr ''boom''] [])", where ?'x = unit] a
  have 2: "\<exists>f. wrap 0 (NotAnError (JArr [JNum 42, JNull, JStr ''boom''] []))
            = (Inr (ErrorObject 0 (FalconError f), 1) :: unit thrown + js_thrown \<times> nat)
        \<and> err_message f = ''42,,boom''
        \<and> err_name f = ''SfdxFalconError2 (Unknown)''
        \<and> wrap 1 (ErrorObject 0 (FalconError f))
            = (Inr (ErrorObject 0 (FalconError f), 1) :: unit thrown + js_thrown \<times> nat)"
    by fastforce
  from 1 2 show ?thesis by simp
qed

text \<open>
  A plain object whose own \<^verbatim>\<open>toString\<close> property is the number 1 has no string
  rendering: \<^verbatim>\<open>wrap\<close> throws a \<^verbatim>\<open>TypeError\<close> and returns no error.
\<close>

theorem wrap_unrenderable_counterexample:
  "wrap 0 (NotAnError (JObj [(''toString'', JNum 1)]))
     = (Inl TypeError :: unit thrown + js_thrown \<times> nat)"
  by (simp add: has_own_def)

lemma getProp_thrown:
  "getProp v k = (Inl t :: 'x thrown + jsval) \<Longrightarrow> v = JNull \<or> v = JUndefined"
  by (cases v) simp_all

text \<open>
  The properties of \<^verbatim>\<open>cliError\<close> when the constructor leaves \<^verbatim>\<open>try\<close> and
  \<^verbatim>\<open>catch\<close>: those of the parsed value, or those of the unparseable error.
\<close>

lemma SfdxCliError_props_parsed:
  fixes JSON_parse :: "string \<Rightarrow> 'x thrown + jsval"
  assumes "JSON_parse b = Inr v" "v \<noteq> JNull" "v \<noteq> JUndefined"
  shows "fst (try_catch (SfdxCliError_try JSON_parse b ''SfdxCliError'')
                (SfdxCliError_catch b) []) =
     [(''name'', js_or (own_property v ''name'') (JStr ''Unknown CLI Error'')),
      (''message'', js_or (own_property v ''message'') (JStr ''Unknown CLI Error'')),
      (''status'', if own_property v ''status'' = JUndefined then JNum 1
                   else own_property v ''status''),
      (''stack'', js_or (own_property v ''stack'') (JStr ''SfdxCliError'')),
      (''result'', js_or (own_property v ''result'') (JObj [])),
      (''warnings'', js_or (own_property v ''warnings'') (JArr [] []))]"
  using assms
  by (simp add: try_catch_def SfdxCliError_try_def seq_def assign_def getProp_value
      del: getProp.simps)

lemma SfdxCliError_props_unparsed:
  fixes JSON_parse :: "string \<Rightarrow> 'x thrown + jsval"
  assumes "(\<exists>t. JSON_parse b = Inl t) \<or> JSON_parse b = Inr JNull \<or> JSON_parse b = Inr JUndefined"
  shows "fst (try_catch (SfdxCliError_try JSON_parse b ''SfdxCliError'')
                (SfdxCliError_catch b) []) = unparseable b"
  using assms
  by (auto simp add: try_catch_def SfdxCliError_try_def SfdxCliError_catch_def unparseable_def
      seq_def assign_def)

lemma SfdxCliError_constructor_props:
  fixes JSON_parse :: "string \<Rightarrow> 'x thrown + jsval"
  assumes "fst (try_catch (SfdxCliError_try JSON_parse b ''SfdxCliError'')
                  (SfdxCliError_catch b) []) = props"
  shows "(\<forall>n m. ToString (lookup props ''name'') = (Inr n :: 'x thrown + string)
            \<and> ToString (lookup props ''message'') = (Inr m :: 'x thrown + string) \<longrightarrow>
            (\<exists>e. SfdxCliError_constructor JSON_parse b msg = Inr e \<and> cliError e = props))
      \<and> ((\<exists>t. ToString (lookup props ''name'') = (Inl t :: 'x thrown + string))
           \<or> (\<exists>t. ToString (lookup props ''message'') = (Inl t :: 'x thrown + string)) \<longrightarrow>
            SfdxCliError_constructor JSON_parse b msg = Inl TypeError)
      \<and> (\<forall>e. SfdxCliError_constructor JSON_parse b msg = Inr e \<longrightarrow> cliError e = props)"
proof -
  have c: "SfdxCliError_constructor JSON_parse b msg =
      bindE (ToString (lookup props ''name'')) (\<lambda>nameText.
      bindE (ToString (lookup props ''message'')) (\<lambda>messageText.
        Inr (addToStack (Some (nameText @ '': '' @ messageText))
          ((SfdxFalconError2.extend
              (SfdxFalconError2_constructor
                 (''ERROR_SALESFORCE_CLI: ''
                    @ (case msg of None \<Rightarrow> ''Unknown CLI Error'' | Some m' \<Rightarrow> m'))
                 (Some ''SfdxCliError'') None None)
              \<lparr>cliError = []\<rparr>)\<lparr>cliError := props\<rparr>))))"
    using assms
    by (simp add: SfdxCliError_constructor_def Let_def SfdxFalconError2_constructor_def
        SfdxFalconError2.extend_def)
  show ?thesis
  proof (cases "ToString (lookup props ''name'') :: 'x thrown + string")
    case (Inl t)
    then have "t = TypeError" by (rule ToString_throws_TypeError)
    with Inl show ?thesis by (simp add: c)
  next
    case n: (Inr n)
    show ?thesis
    proof (cases "ToString (lookup props ''message'') :: 'x thrown + string")
      case (Inl t)
      then have "t = TypeError" by (rule ToString_throws_TypeError)
      with Inl n show ?thesis by (simp add: c)
    next
      case (Inr m)
      with n show ?thesis
        by (simp add: c addToStack_def SfdxFalconError2_constructor_def
            SfdxFalconError2.extend_def)
    qed
  qed
qed

lemma js_or_defined: "truthy d \<Longrightarrow> js_or a d \<noteq> JUndefined"
  by (cases a) (auto simp: js_or_def)

lemma unparseable_defined:
  "k \<in> set [''name'', ''message'', ''status'', ''stack'', ''result'', ''warnings'']
   \<Longrightarrow> \<exists>v. map_of (unparseable b) k = Some v \<and> v \<noteq> JUndefined"
  by (auto simp: unparseable_def)

lemma unparseable_rendered:
  "ToString (lookup (unparseable b) ''name'') = (Inr ''ERROR_NOT_PARSEABLE'' :: 'x thrown + string)"
  "ToString (lookup (unparseable b) ''message'')
     = (Inr (''Unparseable CLI Error (see '' @ squote ''cliError.result.rawResult''
               @ '' for raw error)'') :: 'x thrown + string)"
  by (simp_all add: unparseable_def lookup_def)

text \<open>
  C5, as the code has it. For every stderr buffer: when \<^verbatim>\<open>JSON.parse\<close> returns a
  value other than \<^verbatim>\<open>null\<close>, the properties set on \<^verbatim>\<open>cliError\<close> are the parsed
  name, message, stack, result and warnings where they are truthy and the defaults where
  they are absent or falsy, and the parsed status, or 1 when the parsed value has none.
  The constructor then renders the name and the message so set: when both have a string
  rendering, it returns the error with this \<^verbatim>\<open>cliError\<close>; when one of them has none,
  it throws a \<^verbatim>\<open>TypeError\<close> and no error object results. When parsing fails, and also
  when it returns \<^verbatim>\<open>null\<close>, the constructor returns the error whose \<^verbatim>\<open>cliError\<close> is
  the synthetic unparseable error: name \<^verbatim>\<open>ERROR_NOT_PARSEABLE\<close>, status 999, the raw
  buffer in \<^verbatim>\<open>result.rawResult\<close>. Whenever the constructor returns, each of the six
  fields is set to a value.
\<close>

theorem SfdxCliError_cliError_fields:
  fixes JSON_parse :: "string \<Rightarrow> 'x thrown + jsval"
  shows "(\<forall>v. JSON_parse b = Inr v \<and> v \<noteq> JNull \<and> v \<noteq> JUndefined \<longrightarrow>
            ((\<exists>n m. ToString (js_or (own_property v ''name'') (JStr ''Unknown CLI Error''))
                       = (Inr n :: 'x thrown + string)
                   \<and> ToString (js_or (own_property v ''message'') (JStr ''Unknown CLI Error''))
                       = (Inr m :: 'x thrown + string)) \<longrightarrow>
              (\<exists>e. SfdxCliError_constructor JSON_parse b msg = Inr e
                 \<and> cliError e =
                    [(''name'', js_or (own_property v ''name'') (JStr ''Unknown CLI Error'')),
                     (''message'', js_or (own_property v ''message'') (JStr ''Unknown CLI Error'')),
                     (''status'', if own_property v ''status'' = JUndefined then JNum 1
                                  else own_property v ''status''),
                     (''stack'', js_or (own_property v ''stack'') (JStr ''SfdxCliError'')),
                     (''result'', js_or (own_property v ''result'') (JObj [])),
                     (''warnings'', js_or (own_property v ''warnings'') (JArr [] []))]))
          \<and> ((\<exists>t. ToString (js_or (own_property v ''name'') (JStr ''Unknown CLI Error''))
                       = (Inl t :: 'x thrown + string))
               \<or> (\<exists>t. ToString (js_or (own_property v ''message'') (JStr ''Unknown CLI Error''))
                       = (Inl t :: 'x thrown + string)) \<longrightarrow>
              SfdxCliError_constructor JSON_parse b msg = Inl TypeError))
      \<and> ((\<exists>t. JSON_parse b = Inl t) \<or> JSON_parse b = Inr JNull \<or> JSON_parse b = Inr JUndefined
            \<longrightarrow> (\<exists>e. SfdxCliError_constructor JSON_parse b msg = Inr e
                    \<and> cliError e = unparseable b))
      \<and> (\<forall>e. SfdxCliError_constructor JSON_parse b msg = Inr e \<longrightarrow>
            (\<forall>k \<in> set [''name'', ''message'', ''status'', ''stack'', ''result'', ''warnings''].
               \<exists>v. map_of (cliError e) k = Some v \<and> v \<noteq> JUndefined))"
proof -
  have parsed: "\<And>v. JSON_parse b = Inr v \<Longrightarrow> v \<noteq> JNull \<Longrightarrow> v \<noteq> JUndefined \<Longrightarrow>
      ((\<exists>n m. ToString (js_or (own_property v ''name'') (JStr ''Unknown CLI Error''))
                       = (Inr n :: 'x thrown + string)
                   \<and> ToString (js_or (own_property v ''message'') (JStr ''Unknown CLI Error''))
                       = (Inr m :: 'x thrown + string)) \<longrightarrow>
              (\<exists>e. SfdxCliError_constructor JSON_parse b msg = Inr e
                 \<and> cliError e =
                    [(''name'', js_or (own_property v ''name'') (JStr ''Unknown CLI Error'')),
                     (''message'', js_or (own_property v ''message'') (JStr ''Unknown CLI Error'')),
                     (''status'', if own_property v ''status'' = JUndefined then JNum 1
                                  else own_property v ''status''),
                     (''stack'', js_or (own_property v ''stack'') (JStr ''SfdxCliError'')),
                     (''result'', js_or (own_property v ''result'') (JObj [])),
                     (''warnings'', js_or (own_property v ''warnings'') (JArr [] []))]))
          \<and> ((\<exists>t. ToString (js_or (own_property v ''name'') (JStr ''Unknown CLI Error''))
                       = (Inl t :: 'x thrown + string))
               \<or> (\<exists>t. ToString (js_or (own_property v ''message'') (JStr ''Unknown CLI Error''))
                       = (Inl t :: 'x thrown + string)) \<longrightarrow>
              SfdxCliError_constructor JSON_parse b msg = Inl TypeError)"
  proof -
    fix v
    assume v: "JSON_parse b = Inr v" "v \<noteq> JNull" "v \<noteq> JUndefined"
    define P where "P =
        [(''name'', js_or (own_property v ''name'') (JStr ''Unknown CLI Error'')),
         (''message'', js_or (own_property v ''message'') (JStr ''Unknown CLI Error'')),
         (''status'', if own_property v ''status'' = JUndefined then JNum 1
                      else own_property v ''status''),
         (''stack'', js_or (own_property v ''stack'') (JStr ''SfdxCliError'')),
         (''result'', js_or (own_property v ''result'') (JObj [])),
         (''warnings'', js_or (own_property v ''warnings'') (JArr [] []))]"
    have n: "lookup P ''name'' = js_or (own_property v ''name'') (JStr ''Unknown CLI Error'')"
      and m: "lookup P ''message''
                = js_or (own_property v ''message'') (JStr ''Unknown CLI Error'')"
      by (simp_all add: P_def lookup_def)
    have p: "fst (try_catch (SfdxCliError_try JSON_parse b ''SfdxCliError'')
                (SfdxCliError_catch b) []) = P"
      unfolding P_def by (rule SfdxCliError_props_parsed [of JSON_parse b v, OF v])
    note c = SfdxCliError_constructor_props [of JSON_parse b P msg, OF p, unfolded n m]
    have 1: "(\<exists>n m. ToString (js_or (own_property v ''name'') (JStr ''Unknown CLI Error''))
                       = (Inr n :: 'x thrown + string)
                   \<and> ToString (js_or (own_property v ''message'') (JStr ''Unknown CLI Error''))
                       = (Inr m :: 'x thrown + string)) \<longrightarrow>
              (\<exists>e. SfdxCliError_constructor JSON_parse b msg = Inr e \<and> cliError e = P)"
      using c by blast
    have 2: "(\<exists>t. ToString (js_or (own_property v ''name'') (JStr ''Unknown CLI Error''))
                       = (Inl t :: 'x thrown + string))
               \<or> (\<exists>t. ToString (js_or (own_property v ''message'') (JStr ''Unknown CLI Error''))
                       = (Inl t :: 'x thrown + string)) \<longrightarrow>
              SfdxCliError_constructor JSON_parse b msg = Inl TypeError"
      using c by blast
    from 1 2 show "((\<exists>n m. ToString (js_or (own_property v ''name'') (JStr ''Unknown CLI Error''))
                       = (Inr n :: 'x thrown + string)
                   \<and> ToString (js_or (own_property v ''message'') (JStr ''Unknown CLI Error''))
                       = (Inr m :: 'x thrown + string)) \<longrightarrow>
              (\<exists>e. SfdxCliError_constructor JSON_parse b msg = Inr e
                 \<and> cliError e =
                    [(''name'', js_or (own_property v ''name'') (JStr ''Unknown CLI Error'')),
                     (''message'', js_or (own_property v ''message'') (JStr ''Unknown CLI Error'')),
                     (''status'', if own_property v ''status'' = JUndefined then JNum 1
                                  else own_property v ''status''),
                     (''stack'', js_or (own_property v ''stack'') (JStr ''SfdxCliError'')),
                     (''result'', js_or (own_property v ''result'') (JObj [])),
                     (''warnings'', js_or (own_property v ''warnings'') (JArr [] []))]))
          \<and> ((\<exists>t. ToString (js_or (own_property v ''name'') (JStr ''Unknown CLI Error''))
                       = (Inl t :: 'x thrown + string))
               \<or> (\<exists>t. ToString (js_or (own_property v ''message'') (JStr ''Unknown CLI Error''))
                       = (Inl t :: 'x thrown + string)) \<longrightarrow>
              SfdxCliError_constructor JSON_parse b msg = Inl TypeError)"
      unfolding P_def by (intro conjI)
  qed
  have unparsed: "(\<exists>t. JSON_parse b = Inl t) \<or> JSON_parse b = Inr JNull
        \<or> JSON_parse b = Inr JUndefined \<Longrightarrow>
      \<exists>e. SfdxCliError_constructor JSON_parse b msg = Inr e \<and> cliError e = unparseable b"
  proof -
    assume u: "(\<exists>t. JSON_parse b = Inl t) \<or> JSON_parse b = Inr JNull
        \<or> JSON_parse b = Inr JUndefined"
    from SfdxCliError_constructor_props [OF SfdxCliError_props_unparsed [of JSON_parse b, OF u], of msg]
      unparseable_rendered [of b, where ?'x = 'x]
    show "\<exists>e. SfdxCliError_constructor JSON_parse b msg = Inr e \<and> cliError e = unparseable b"
      by blast
  qed
  have fields: "\<And>e k. SfdxCliError_constructor JSON_parse b msg = Inr e \<Longrightarrow>
      k \<in> set [''name'', ''message'', ''status'', ''stack'', ''result'', ''warnings''] \<Longrightarrow>
      \<exists>v. map_of (cliError e) k = Some v \<and> v \<noteq> JUndefined"
  proof -
    fix e k
    assume e: "SfdxCliError_constructor JSON_parse b msg = Inr e"
      and k: "k \<in> set [''name'', ''message'', ''status'', ''stack'', ''result'', ''warnings'']"
    show "\<exists>v. map_of (cliError e) k = Some v \<and> v \<noteq> JUndefined"
    proof (cases "(\<exists>t. JSON_parse b = Inl t) \<or> JSON_parse b = Inr JNull
        \<or> JSON_parse b = Inr JUndefined")
      case True
      from SfdxCliError_constructor_props [OF SfdxCliError_props_unparsed [of JSON_parse b, OF True], of msg] e
      have "cliError e = unparseable b" by blast
      with k show ?thesis by (simp only: unparseable_defined)
    next
      case False
      then obtain v where v: "JSON_parse b = Inr v" "v \<noteq> JNull" "v \<noteq> JUndefined"
        by (cases "JSON_parse b") auto
      from SfdxCliError_constructor_props [OF SfdxCliError_props_parsed [of JSON_parse b v, OF v], of msg] e
      have "cliError e =
         [(''name'', js_or (own_property v ''name'') (JStr ''Unknown CLI Error'')),
          (''message'', js_or (own_property v ''message'') (JStr ''Unknown CLI Error'')),
          (''status'', if own_property v ''status'' = JUndefined then JNum 1
                       else own_property v ''status''),
          (''stack'', js_or (own_property v ''stack'') (JStr ''SfdxCliError'')),
          (''result'', js_or (own_property v ''result'') (JObj [])),
          (''warnings'', js_or (own_property v ''warnings'') (JArr [] []))]"
        by blast
      with k show ?thesis
        by (auto simp: js_or_defined)
    qed
  qed
  from parsed unparsed fields show ?thesis
    by blast
qed

theorem SfdxCliError_cliError_fields_witness:
  \<open>\<exists>e. SfdxCliError_constructor
      (\<lambda>text. if text = ''{"name":"NoOrgFound","status":1}''
               then Inr (JObj [(''name'', JStr ''NoOrgFound''), (''status'', JNum 1)])
               else Inl (SyntaxError :: unit thrown))
      ''{"name":"NoOrgFound","status":1}'' None = Inr e
    \<and> cliError e =
       [(''name'', JStr ''NoOrgFound''),
        (''message'', JStr ''Unknown CLI Error''),
        (''status'', JNum 1),
        (''stack'', JStr ''SfdxCliError''),
        (''result'', JObj []),
        (''warnings'', JArr [] [])]\<close>
  using SfdxCliError_cliError_fields [of
      "\<lambda>text. if text = ''{\"name\":\"NoOrgFound\",\"status\":1}''
               then Inr (JObj [(''name'', JStr ''NoOrgFound''), (''status'', JNum 1)])
               else Inl (SyntaxError :: unit thrown)"
      "''{\"name\":\"NoOrgFound\",\"status\":1}''" None]
  by (simp add: js_or_def lookup_def)

text \<open>
  The buffer \<^verbatim>\<open>null\<close> parses as JSON, to \<^verbatim>\<open>null\<close>; reading \<^verbatim>\<open>name\<close> of it
  throws inside \<^verbatim>\<open>try\<close>, and the result is the unparseable error, not the defaults.
  A buffer that parses to an object whose \<^verbatim>\<open>name\<close> is an object with an own
  \<^verbatim>\<open>toString\<close> property that is not a function has that name copied, and the
  constructor throws when it renders it: no \<^verbatim>\<open>cliError\<close> results.
\<close>

theorem SfdxCliError_null_counterexample:
  \<open>map_sum id cliError (SfdxCliError_constructor
      (\<lambda>text. if text = ''null'' then Inr JNull else Inl (SyntaxError :: unit thrown))
      ''null'' None)
     = Inr [(''name'', JStr ''ERROR_NOT_PARSEABLE''),
            (''message'', JStr (''Unparseable CLI Error (see ''
               @ squote ''cliError.result.rawResult'' @ '' for raw error)'')),
            (''status'', JNum 999),
            (''stack'', JStr (''Unparseable CLI Error (see ''
               @ squote ''cliError.result.rawResult'' @ '' for raw error)'')),
            (''result'', JObj [(''rawResult'', JStr ''null'')]),
            (''warnings'', JArr [] [])]
   \<and> SfdxCliError_constructor
      (\<lambda>text. if text = ''{"name":{"toString":1}}''
               then Inr (JObj [(''name'', JObj [(''toString'', JNum 1)])])
               else Inl (SyntaxError :: unit thrown))
      ''{"name":{"toString":1}}'' None = Inl TypeError\<close>
  by (simp add: SfdxCliError_constructor_def Let_def try_catch_def SfdxCliError_try_def
      SfdxCliError_catch_def seq_def assign_def addToStack_def SfdxFalconError2_constructor_def
      SfdxFalconError2.extend_def lookup_def js_or_def has_own_def)

section \<open>Properties of the Git utilities\<close>


lemma set_step_Seq: "set (step (Seq p q) st) = (\<Union>st' \<in> set (step p st). set (step q st'))"
  by simp

lemma set_step_Lit:
  "set (step (Lit c) (b, s)) = (case s of [] \<Rightarrow> {} | x # xs \<Rightarrow> if x = c then {(False, xs)} else {})"
  by (simp split: list.splits)

lemma set_step_name:
  "set (step (Alt (OneOf word_chars) (Lit CHR ''-'')) (b, s)) =
     (case s of [] \<Rightarrow> {} | x # xs \<Rightarrow> if name_char x then {(False, xs)} else {})"
  by (auto simp: name_char_def split: list.splits)

lemma set_step_Star:
  assumes a: "\<And>b s. set (step p (b, s)) =
     (case s of [] \<Rightarrow> {} | x # xs \<Rightarrow> if P x then {(False, xs)} else {})"
  shows "set (step (Star p) (b, s)) =
     {(b', s'). \<exists>pre. s = pre @ s' \<and> (\<forall>c \<in> set pre. P c) \<and> b' = (b \<and> pre = [])}"
proof (induction s arbitrary: b)
  case Nil
  show ?case by (subst step.simps(6)) (auto simp: a)
next
  case (Cons x xs)
  show ?case
  proof (cases "P x")
    case True
    have "set (step (Star p) (b, x # xs)) = set (step (Star p) (False, xs)) \<union> {(b, x # xs)}"
      using True by (subst step.simps(6)) (simp add: a)
    also have "\<dots> = {(b', s'). \<exists>pre. xs = pre @ s' \<and> (\<forall>c \<in> set pre. P c) \<and> b' = (False \<and> pre = [])}
        \<union> {(b, x # xs)}"
      by (simp only: Cons.IH)
    also have "\<dots> = {(b', s'). \<exists>pre. x # xs = pre @ s' \<and> (\<forall>c \<in> set pre. P c) \<and> b' = (b \<and> pre = [])}"
      using True by (auto simp: Cons_eq_append_conv)
    finally show ?thesis .
  next
    case False
    have "set (step (Star p) (b, x # xs)) = {(b, x # xs)}"
      using False by (subst step.simps(6)) (simp add: a)
    also have "\<dots> = {(b', s'). \<exists>pre. x # xs = pre @ s' \<and> (\<forall>c \<in> set pre. P c) \<and> b' = (b \<and> pre = [])}"
      using False by (auto simp: Cons_eq_append_conv)
    finally show ?thesis .
  qed
qed


lemma mem_step_Seq: "x \<in> set (step (Seq p q) st) \<longleftrightarrow> (\<exists>y \<in> set (step p st). x \<in> set (step q y))"
  by simp

lemma mem_step_Lit: "y \<in> set (step (Lit c) (b, s)) \<longleftrightarrow> (\<exists>xs. s = c # xs \<and> y = (False, xs))"
  by (cases s) auto

lemma mem_step_Eol: "y \<in> set (step Eol (b, s)) \<longleftrightarrow> (s = [] \<and> y = (b, []))"
  by auto

lemma mem_step_name:
  "y \<in> set (step (Alt (OneOf word_chars) (Lit CHR ''-'')) (b, s)) \<longleftrightarrow>
     (\<exists>x xs. s = x # xs \<and> name_char x \<and> y = (False, xs))"
  by (cases s) (auto simp: name_char_def)

lemma mem_step_names:
  "y \<in> set (step (Star (Alt (OneOf word_chars) (Lit CHR ''-''))) (b, s)) \<longleftrightarrow>
     (\<exists>pre s'. s = pre @ s' \<and> (\<forall>c \<in> set pre. name_char c) \<and> y = (b \<and> pre = [], s'))"
  unfolding set_step_Star [where P = name_char, OF set_step_name] by auto

lemma mem_step_slashes:
  "y \<in> set (step (Star (Lit CHR ''/'')) (b, s)) \<longleftrightarrow>
     (\<exists>pre s'. s = pre @ s' \<and> (\<forall>c \<in> set pre. c = CHR ''/'') \<and> y = (b \<and> pre = [], s'))"
  unfolding set_step_Star [where P = "\<lambda>c. c = CHR ''/''", OF set_step_Lit] by auto

lemma lit_Cons: "lit (c # d # w) = Seq (Lit c) (lit (d # w))" and lit_single: "lit [c] = Lit c"
  by (simp_all add: lit_def)

lemma mem_step_dot_git:
  "y \<in> set (step (lit ''.git'') (b, s)) \<longleftrightarrow> (\<exists>t. s = ''.git'' @ t \<and> y = (False, t))"
  unfolding lit_Cons lit_single mem_step_Seq mem_step_Lit by auto


lemma mem_step_Lit': "y \<in> set (step (Lit c) st) \<longleftrightarrow> (\<exists>xs. snd st = c # xs \<and> y = (False, xs))"
  by (cases st) (simp only: mem_step_Lit snd_conv)

lemma mem_step_Eol': "y \<in> set (step Eol st) \<longleftrightarrow> (snd st = [] \<and> y = (fst st, []))"
  by (cases st) (simp only: mem_step_Eol snd_conv fst_conv)

lemma mem_step_name':
  "y \<in> set (step (Alt (OneOf word_chars) (Lit CHR ''-'')) st) \<longleftrightarrow>
     (\<exists>x xs. snd st = x # xs \<and> name_char x \<and> y = (False, xs))"
  by (cases st) (simp only: mem_step_name snd_conv)

lemma mem_step_names':
  "y \<in> set (step (Star (Alt (OneOf word_chars) (Lit CHR ''-''))) st) \<longleftrightarrow>
     (\<exists>pre s'. snd st = pre @ s' \<and> (\<forall>c \<in> set pre. name_char c) \<and> y = (fst st \<and> pre = [], s'))"
  by (cases st) (simp only: mem_step_names snd_conv fst_conv)

lemma mem_step_slashes':
  "y \<in> set (step (Star (Lit CHR ''/'')) st) \<longleftrightarrow>
     (\<exists>pre s'. snd st = pre @ s' \<and> (\<forall>c \<in> set pre. c = CHR ''/'') \<and> y = (fst st \<and> pre = [], s'))"
  by (cases st) (simp only: mem_step_slashes snd_conv fst_conv)

lemma mem_step_dot_git':
  "y \<in> set (step (lit ''.git'') st) \<longleftrightarrow> (\<exists>t. snd st = ''.git'' @ t \<and> y = (False, t))"
  by (cases st) (simp only: mem_step_dot_git snd_conv)

lemma repoNameRegEx_unfold:
  "repoNameRegEx =
     Seq (Lit CHR ''/'')
       (Seq (Seq (Alt (OneOf word_chars) (Lit CHR ''-'')) (Star (Alt (OneOf word_chars) (Lit CHR ''-''))))
          (Seq (lit ''.git'') (Seq (Star (Lit CHR ''/'')) Eol)))"
  by (simp add: repoNameRegEx_def Plus_def)

lemma mem_step_repoNameRegEx:
  "y \<in> set (step repoNameRegEx (b, t)) \<longleftrightarrow> (y = (False, []) \<and> (\<exists>name. repo_tail t name))"
proof
  assume "y \<in> set (step repoNameRegEx (b, t))"
  then obtain x pre sl where
    "t = CHR ''/'' # x # pre @ ''.git'' @ sl" "name_char x" "\<forall>c \<in> set pre. name_char c"
    "\<forall>c \<in> set sl. c = CHR ''/''" "y = (False, [])"
    unfolding repoNameRegEx_unfold mem_step_Seq mem_step_Lit' mem_step_name' mem_step_names'
      mem_step_dot_git' mem_step_slashes' mem_step_Eol' Bex_def
    by (auto simp del: step.simps)
  then have "repo_tail t (x # pre)" "y = (False, [])"
    by (auto simp: repo_tail_def)
  then show "y = (False, []) \<and> (\<exists>name. repo_tail t name)" by blast
next
  assume "y = (False, []) \<and> (\<exists>name. repo_tail t name)"
  then obtain name sl where y: "y = (False, [])" and n: "name \<noteq> []" "\<forall>c \<in> set name. name_char c"
    and t: "t = CHR ''/'' # name @ ''.git'' @ sl" and sl: "\<forall>c \<in> set sl. c = CHR ''/''"
    by (auto simp: repo_tail_def)
  from n obtain x pre where name: "name = x # pre" by (cases name) auto
  have 1: "(False, name @ ''.git'' @ sl) \<in> set (step (Lit CHR ''/'') (b, t))"
    by (simp add: t)
  have 2: "(False, pre @ ''.git'' @ sl)
      \<in> set (step (Alt (OneOf word_chars) (Lit CHR ''-'')) (False, name @ ''.git'' @ sl))"
    unfolding mem_step_name using n name by auto
  have 3: "(False, ''.git'' @ sl)
      \<in> set (step (Star (Alt (OneOf word_chars) (Lit CHR ''-''))) (False, pre @ ''.git'' @ sl))"
    unfolding mem_step_names using n name by auto
  have 4: "(False, sl) \<in> set (step (lit ''.git'') (False, ''.git'' @ sl))"
    unfolding mem_step_dot_git by auto
  have 5: "(False, []) \<in> set (step (Star (Lit CHR ''/'')) (False, sl))"
    unfolding mem_step_slashes using sl by auto
  have 6: "(False, []) \<in> set (step Eol (False, []))"
    by simp
  have 23: "(False, ''.git'' @ sl)
      \<in> set (step (Seq (Alt (OneOf word_chars) (Lit CHR ''-''))
                       (Star (Alt (OneOf word_chars) (Lit CHR ''-''))))
                (False, name @ ''.git'' @ sl))"
    unfolding mem_step_Seq using 2 3 by blast
  have 56: "(False, []) \<in> set (step (Seq (Star (Lit CHR ''/'')) Eol) (False, sl))"
    unfolding mem_step_Seq using 5 6 by blast
  have 456: "(False, [])
      \<in> set (step (Seq (lit ''.git'') (Seq (Star (Lit CHR ''/'')) Eol)) (False, ''.git'' @ sl))"
    unfolding mem_step_Seq [of _ "lit ''.git''"] using 4 56 by blast
  have 23456: "(False, [])
      \<in> set (step (Seq (Seq (Alt (OneOf word_chars) (Lit CHR ''-''))
                            (Star (Alt (OneOf word_chars) (Lit CHR ''-''))))
                       (Seq (lit ''.git'') (Seq (Star (Lit CHR ''/'')) Eol)))
                (False, name @ ''.git'' @ sl))"
    unfolding mem_step_Seq [of _ "Seq (Alt (OneOf word_chars) (Lit CHR ''-''))
                            (Star (Alt (OneOf word_chars) (Lit CHR ''-'')))"]
    using 23 456 by blast
  show "y \<in> set (step repoNameRegEx (b, t))"
    unfolding repoNameRegEx_unfold y mem_step_Seq [of _ "Lit CHR ''/''"]
    using 1 23456 by blast
qed


lemma step_repoNameRegEx_cases:
  "step repoNameRegEx (b, t) = [] \<and> \<not> (\<exists>name. repo_tail t name)
   \<or> (\<exists>others. step repoNameRegEx (b, t) = (False, []) # others) \<and> (\<exists>name. repo_tail t name)"
proof (cases "step repoNameRegEx (b, t)")
  case Nil
  then have "\<not> (\<exists>name. repo_tail t name)"
    using mem_step_repoNameRegEx [of "(False, [])" b t] by auto
  with Nil show ?thesis by simp
next
  case (Cons y ys)
  then have "y \<in> set (step repoNameRegEx (b, t))" by simp
  then have "y = (False, [])" "\<exists>name. repo_tail t name"
    unfolding mem_step_repoNameRegEx by auto
  with Cons show ?thesis by simp
qed

lemma first_match_repoNameRegEx:
  "first_match repoNameRegEx s is =
     (case find (\<lambda>i. \<exists>name. repo_tail (drop i s) name) is of
        None \<Rightarrow> None | Some i \<Rightarrow> Some (drop i s))"
proof (induction "is")
  case Nil
  show ?case by simp
next
  case (Cons i "is")
  from step_repoNameRegEx_cases [of "i = 0" "drop i s"] show ?case
  proof
    assume "step repoNameRegEx (i = 0, drop i s) = [] \<and> \<not> (\<exists>name. repo_tail (drop i s) name)"
    then show ?thesis using Cons.IH by auto
  next
    assume "(\<exists>others. step repoNameRegEx (i = 0, drop i s) = (False, []) # others)
        \<and> (\<exists>name. repo_tail (drop i s) name)"
    then show ?thesis by auto
  qed
qed

lemma dot_not_name_char: "name_char c \<Longrightarrow> c \<noteq> CHR ''.''"
  by (auto simp: name_char_def word_chars_def)

lemma repo_tail_name:
  assumes "repo_tail m name"
  shows "substr (substring m 0 (lastIndexOf m CHR ''.'')) 1 = name"
proof -
  from assms obtain sl where m: "m = CHR ''/'' # name @ ''.git'' @ sl"
    and n: "\<forall>c \<in> set name. name_char c" and sl: "\<forall>c \<in> set sl. c = CHR ''/''"
    by (auto simp: repo_tail_def)
  have rev: "rev m = (rev sl @ ''tig'') @ CHR ''.'' # rev name @ ''/''"
    by (simp add: m)
  have "takeWhile (\<lambda>x. x \<noteq> CHR ''.'') (rev m) = rev sl @ ''tig''"
    unfolding rev using sl by (subst takeWhile_append2) auto
  then have "lastIndexOf m CHR ''.'' = int (Suc (length name))"
    by (simp add: lastIndexOf_def m)
  moreover have "nat (min (max (int (Suc (length name))) 0) (int (length m))) = Suc (length name)"
    by (simp add: m)
  ultimately have "substring m 0 (lastIndexOf m CHR ''.'') = take (Suc (length name)) m"
    by (simp only: substring_def Let_def) simp
  then show ?thesis
    by (simp add: substr_def m)
qed


lemma regex_exec_repoNameRegEx:
  "regex_exec repoNameRegEx s =
     (case find (\<lambda>i. \<exists>name. repo_tail (drop i s) name) [0..<Suc (length s)] of
        None \<Rightarrow> None | Some i \<Rightarrow> Some (drop i s))"
  by (simp only: regex_exec_def first_match_repoNameRegEx)

lemma case_find_None:
  "(case find P xs of None \<Rightarrow> None | Some i \<Rightarrow> Some (f i)) = None \<longleftrightarrow> \<not> (\<exists>i \<in> set xs. P i)"
  by (induction xs) auto

lemma case_find_Some:
  "(case find P xs of None \<Rightarrow> None | Some i \<Rightarrow> Some (f i)) = Some m \<Longrightarrow> \<exists>i \<in> set xs. P i \<and> m = f i"
  by (induction xs) (auto split: if_splits)

lemma regex_exec_repoNameRegEx_None:
  "regex_exec repoNameRegEx s = None \<longleftrightarrow> \<not> (\<exists>pre t name. s = pre @ t \<and> repo_tail t name)"
proof -
  have "regex_exec repoNameRegEx s = None \<longleftrightarrow>
      \<not> (\<exists>i \<in> set [0..<Suc (length s)]. \<exists>name. repo_tail (drop i s) name)"
    unfolding regex_exec_repoNameRegEx by (rule case_find_None)
  also have "\<dots> \<longleftrightarrow> \<not> (\<exists>pre t name. s = pre @ t \<and> repo_tail t name)"
  proof -
    have "\<And>pre t. s = pre @ t \<Longrightarrow> length pre \<in> set [0..<Suc (length s)] \<and> drop (length pre) s = t"
      by auto
    moreover have "\<And>i. s = take i s @ drop i s" by simp
    ultimately show ?thesis by metis
  qed
  finally show ?thesis .
qed

lemma regex_exec_repoNameRegEx_Some:
  assumes "regex_exec repoNameRegEx s = Some m"
  shows "\<exists>pre name. s = pre @ m \<and> repo_tail m name"
proof -
  from assms obtain i where "\<exists>name. repo_tail (drop i s) name" and m: "m = drop i s"
    using case_find_Some [where P = "\<lambda>i. \<exists>name. repo_tail (drop i s) name"
        and xs = "[0..<Suc (length s)]" and f = "\<lambda>i. drop i s" and m = m]
    unfolding regex_exec_repoNameRegEx by blast
  then obtain name where "repo_tail m name" by blast
  moreover have "s = take i s @ m" by (simp add: m)
  ultimately show ?thesis by blast
qed

text \<open>
  C9. \<^verbatim>\<open>getRepoNameFromUri\<close> is partial over strings. When it returns a name, the
  name is not empty, it consists of word characters and hyphens, and the URI ends in
  a slash, the name, \<^verbatim>\<open>.git\<close> and slashes only: the tail the repository-name pattern
  matches, without its leading slash and its extension. It returns a name exactly when
  the pattern matches, which is exactly when the URI has such a tail. On every other
  string \<^verbatim>\<open>exec\<close> yields \<^verbatim>\<open>null\<close> and indexing it throws the engine's
  \<^verbatim>\<open>TypeError\<close>; the function's own \<^verbatim>\<open>UnreadableRepoName\<close> error is never
  thrown.
\<close>

theorem getRepoNameFromUri_partial:
  "(\<forall>n. getRepoNameFromUri (JStr uri) = Inr n \<longrightarrow>
        n \<noteq> [] \<and> (\<forall>c \<in> set n. name_char c) \<and> regex_test repoNameRegEx uri
      \<and> (\<exists>pre sl. uri = pre @ ''/'' @ n @ ''.git'' @ sl \<and> (\<forall>c \<in> set sl. c = CHR ''/'')))
   \<and> (regex_test repoNameRegEx uri \<longrightarrow> (\<exists>n. getRepoNameFromUri (JStr uri) = Inr n))
   \<and> (\<not> regex_test repoNameRegEx uri \<longrightarrow>
        regex_exec repoNameRegEx uri = None \<and> getRepoNameFromUri (JStr uri) = Inl TypeError)
   \<and> (regex_test repoNameRegEx uri \<longleftrightarrow>
        (\<exists>pre name sl. uri = pre @ ''/'' @ name @ ''.git'' @ sl \<and> name \<noteq> []
           \<and> (\<forall>c \<in> set name. name_char c) \<and> (\<forall>c \<in> set sl. c = CHR ''/'')))
   \<and> (\<forall>msg src. getRepoNameFromUri (JStr uri)
         \<noteq> Inl (Foreign (SfdxFalconError msg ''UnreadableRepoName'' src)))"
proof (cases "regex_exec repoNameRegEx uri")
  case None
  then have t: "\<not> regex_test repoNameRegEx uri" by (simp add: regex_test_def)
  have g: "getRepoNameFromUri (JStr uri) = Inl TypeError"
    by (simp add: getRepoNameFromUri_def None)
  have "\<not> (\<exists>pre name sl. uri = pre @ ''/'' @ name @ ''.git'' @ sl \<and> name \<noteq> []
           \<and> (\<forall>c \<in> set name. name_char c) \<and> (\<forall>c \<in> set sl. c = CHR ''/''))"
  proof
    assume "\<exists>pre name sl. uri = pre @ ''/'' @ name @ ''.git'' @ sl \<and> name \<noteq> []
           \<and> (\<forall>c \<in> set name. name_char c) \<and> (\<forall>c \<in> set sl. c = CHR ''/'')"
    then obtain pre name sl where "uri = pre @ (CHR ''/'' # name @ ''.git'' @ sl)"
      "repo_tail (CHR ''/'' # name @ ''.git'' @ sl) name"
      by (auto simp: repo_tail_def)
    with None show False
      unfolding regex_exec_repoNameRegEx_None by blast
  qed
  with None t g show ?thesis by simp
next
  case (Some m)
  then have t: "regex_test repoNameRegEx uri" by (simp add: regex_test_def)
  from regex_exec_repoNameRegEx_Some [OF Some] obtain pre name where
    u: "uri = pre @ m" and r: "repo_tail m name" by blast
  from r obtain sl where m: "m = CHR ''/'' # name @ ''.git'' @ sl"
    and n: "name \<noteq> []" "\<forall>c \<in> set name. name_char c" and sl: "\<forall>c \<in> set sl. c = CHR ''/''"
    by (auto simp: repo_tail_def)
  have g: "getRepoNameFromUri (JStr uri) = Inr name"
    using n repo_tail_name [OF r] by (simp add: getRepoNameFromUri_def Some Let_def)
  have d: "uri = pre @ ''/'' @ name @ ''.git'' @ sl"
    by (simp add: u m)
  show ?thesis
    using t g d n sl by (simp del: append_assoc) blast
qed


lemma getRepoNameFromUri_example:
  "getRepoNameFromUri (JStr ''https://github.com/sfdx-isv/sfdx-falcon.git/'') = Inr ''sfdx-falcon''"
  by code_simp

lemma getRepoNameFromUri_no_tail_example:
  "\<not> regex_test repoNameRegEx ''https://github.com/sfdx-isv/sfdx-falcon''"
  by code_simp

theorem getRepoNameFromUri_partial_witness:
  "getRepoNameFromUri (JStr ''https://github.com/sfdx-isv/sfdx-falcon.git/'') = Inr ''sfdx-falcon''
   \<and> regex_test repoNameRegEx ''https://github.com/sfdx-isv/sfdx-falcon.git/''
   \<and> \<not> regex_test repoNameRegEx ''https://github.com/sfdx-isv/sfdx-falcon''
   \<and> regex_exec repoNameRegEx ''https://github.com/sfdx-isv/sfdx-falcon'' = None
   \<and> getRepoNameFromUri (JStr ''https://github.com/sfdx-isv/sfdx-falcon'') = Inl TypeError"
  using getRepoNameFromUri_partial [of "''https://github.com/sfdx-isv/sfdx-falcon.git/''"]
    getRepoNameFromUri_partial [of "''https://github.com/sfdx-isv/sfdx-falcon''"]
    getRepoNameFromUri_example getRepoNameFromUri_no_tail_example
  by blast

text \<open>
  C10. On a string, \<^verbatim>\<open>isGitUriValid\<close> with a protocol filter returns the conjunction
  of the general Git-URI pattern test and the filter's test, and without a filter the
  pattern test alone; so whenever it returns true with a filter, it returns true
  without one.
\<close>

theorem isGitUriValid_filter_monotone:
  "isGitUriValid (JStr u) (Some p) = Inr (regex_test gitUriRegEx u \<and> p u)
   \<and> isGitUriValid (JStr u) None = Inr (regex_test gitUriRegEx u)
   \<and> (isGitUriValid (JStr u) (Some p) = Inr True \<longrightarrow> isGitUriValid (JStr u) None = Inr True)"
  by (simp add: isGitUriValid_def)

lemma isGitUriValid_example:
  "isGitUriValid (JStr ''https://github.com/sfdx-isv/sfdx-falcon.git'')
     (Some (regex_test (Seq Bol (lit ''https'')))) = Inr True"
  by code_simp

theorem isGitUriValid_filter_monotone_witness:
  "isGitUriValid (JStr ''https://github.com/sfdx-isv/sfdx-falcon.git'')
     (Some (regex_test (Seq Bol (lit ''https'')))) = Inr True
   \<and> isGitUriValid (JStr ''https://github.com/sfdx-isv/sfdx-falcon.git'') None = Inr True"
  using isGitUriValid_filter_monotone [of "''https://github.com/sfdx-isv/sfdx-falcon.git''"
      "regex_test (Seq Bol (lit ''https''))"] isGitUriValid_example
  by blast
section \<open>Properties of the command falcon:demo:deploy\<close>


text \<open>
  What \<^verbatim>\<open>onError\<close> throws: the \<^verbatim>\<open>SfdxError\<close> of the configuration it builds, when
  the rejection and its \<^verbatim>\<open>stdErrJson\<close> are neither \<^verbatim>\<open>null\<close> nor \<^verbatim>\<open>undefined\<close>
  and the message of the latter has a string rendering; a \<^verbatim>\<open>TypeError\<close> otherwise.
\<close>

lemma onError_SfdxError:
  assumes "falconError \<noteq> JNull" "falconError \<noteq> JUndefined"
    and "own_property falconError ''stdErrJson'' = stdError"
    and "stdError \<noteq> JNull" "stdError \<noteq> JUndefined"
    and "ToString (own_property stdError ''message'') = (Inr messageText :: deploy_error thrown + string)"
  shows "onError falconError = Inl (Foreign (SfdxError_created
      \<lparr>packageName = ''sfdx-falcon'', bundleName = ''falconErrorMessages'',
       errorKey = ''errDefault'',
       errorTokens = [own_property falconError ''message'', own_property stdError ''message''],
       errorActions =
         (if regex_test (lit ''VMC_DEV_TEST1'') messageText
          then [(''actionDevTest1'', [''TEST_ONE'']), (''actionDevTest2'', [''TEST_TWO''])]
          else if regex_test (lit ''VMC_DEV_TEST2'') messageText
          then [(''actionDevTest2'', [''TEST_THREE''])]
          else if regex_test (lit ''VMC_DEV_TEST3'') messageText
          then [(''actionDevTest2'', [''TEST_FOUR''])]
          else [])\<rparr>
      ''falcon:demo:deploy''))"
proof -
  have f: "getProp falconError ''stdErrJson'' = (Inr stdError :: deploy_error thrown + jsval)"
    "getProp falconError ''message''
       = (Inr (own_property falconError ''message'') :: deploy_error thrown + jsval)"
    using assms(1-3) by (simp_all add: getProp_value del: getProp.simps)
  have s: "getProp stdError ''message''
       = (Inr (own_property stdError ''message'') :: deploy_error thrown + jsval)"
    using assms(4,5) by (simp add: getProp_value del: getProp.simps)
  show ?thesis
    unfolding onError_def Let_def
    by (simp add: f s assms(6) setErrorTokens_def addAction_def del: getProp.simps)
qed

lemma onError_TypeError:
  assumes "falconError = JNull \<or> falconError = JUndefined
      \<or> own_property falconError ''stdErrJson'' = JNull
      \<or> own_property falconError ''stdErrJson'' = JUndefined
      \<or> (\<exists>t. ToString (own_property (own_property falconError ''stdErrJson'') ''message'')
                = (Inl t :: deploy_error thrown + string))"
  shows "onError falconError = Inl TypeError"
proof (cases "falconError = JNull \<or> falconError = JUndefined")
  case True
  then show ?thesis
    by (auto simp: onError_def Let_def)
next
  case False
  then have f: "getProp falconError ''stdErrJson''
       = (Inr (own_property falconError ''stdErrJson'') :: deploy_error thrown + jsval)"
    "getProp falconError ''message''
       = (Inr (own_property falconError ''message'') :: deploy_error thrown + jsval)"
    by (simp_all add: getProp_value del: getProp.simps)
  show ?thesis
  proof (cases "own_property falconError ''stdErrJson'' = JNull
      \<or> own_property falconError ''stdErrJson'' = JUndefined")
    case True
    then show ?thesis
      unfolding onError_def Let_def
      by (auto simp: f)
  next
    case n: False
    then have s: "getProp (own_property falconError ''stdErrJson'') ''message''
       = (Inr (own_property (own_property falconError ''stdErrJson'') ''message'')
            :: deploy_error thrown + jsval)"
      by (simp add: getProp_value del: getProp.simps)
    from assms False n obtain t where
      "ToString (own_property (own_property falconError ''stdErrJson'') ''message'')
         = (Inl t :: deploy_error thrown + string)"
      by blast
    moreover from this have "t = TypeError"
      by (rule ToString_throws_TypeError)
    ultimately show ?thesis
      unfolding onError_def Let_def
      by (simp add: f s del: getProp.simps)
  qed
qed

lemma onError_throws: "\<exists>t. onError e = Inl t"
proof (cases "e = JNull \<or> e = JUndefined
      \<or> own_property e ''stdErrJson'' = JNull
      \<or> own_property e ''stdErrJson'' = JUndefined
      \<or> (\<exists>t. ToString (own_property (own_property e ''stdErrJson'') ''message'')
                = (Inl t :: deploy_error thrown + string))")
  case True
  then have "onError e = Inl TypeError" by (rule onError_TypeError)
  then show ?thesis by blast
next
  case False
  then obtain messageText where
    "ToString (own_property (own_property e ''stdErrJson'') ''message'')
       = (Inr messageText :: deploy_error thrown + string)"
    by (cases "ToString (own_property (own_property e ''stdErrJson'') ''message'')
                 :: deploy_error thrown + string") auto
  with False onError_SfdxError [of e "own_property e ''stdErrJson''" messageText]
  show ?thesis by blast
qed

lemma run_failed_validation:
  assumes "validateLocalPath D (deployDirFlag flags)"
    and "AppxDemoProject_resolve D (path_resolve D (deployDirFlag flags)) (debugModeFlag flags)
           = Inr p"
    and "validateDemo D p = Inl falconError"
    and "onError falconError = Inl t"
  shows "run D flags = Inl t"
  using assms by (simp add: run_def Let_def)

text \<open>
  C6, as the code has it. When the deploy directory is valid, the project resolves and
  the validation of the demo succeeds, \<^verbatim>\<open>run\<close> resolves with the response of status
  0 whose result is the status report. When the validation fails, \<^verbatim>\<open>onError\<close>
  throws, and \<^verbatim>\<open>run\<close> rejects with what it throws, so that no response is produced:
  the \<^verbatim>\<open>SfdxError\<close> with command name \<^verbatim>\<open>falcon:demo:deploy\<close>, made of the
  configuration that holds the two messages as tokens and the actions of the first
  pattern found in the standard error's message, when the rejection has a
  \<^verbatim>\<open>stdErrJson\<close> that is neither \<^verbatim>\<open>null\<close> nor \<^verbatim>\<open>undefined\<close> and whose message has
  a string rendering; a \<^verbatim>\<open>TypeError\<close> otherwise. Every response \<^verbatim>\<open>run\<close> resolves
  with has status 0 and a status report as its result.
\<close>

theorem run_response:
  "(\<forall>p report. validateLocalPath D (deployDirFlag flags)
        \<and> AppxDemoProject_resolve D (path_resolve D (deployDirFlag flags)) (debugModeFlag flags) = Inr p
        \<and> validateDemo D p = Inr report
      \<longrightarrow> run D flags = Inr \<lparr>status = 0, result = ResultReport report\<rparr>)
   \<and> (\<forall>p falconError. validateLocalPath D (deployDirFlag flags)
        \<and> AppxDemoProject_resolve D (path_resolve D (deployDirFlag flags)) (debugModeFlag flags) = Inr p
        \<and> validateDemo D p = Inl falconError
      \<longrightarrow> (\<exists>t. onError falconError = Inl t \<and> run D flags = Inl t)
        \<and> (\<forall>stdError messageText.
              falconError \<noteq> JNull \<and> falconError \<noteq> JUndefined
            \<and> own_property falconError ''stdErrJson'' = stdError
            \<and> stdError \<noteq> JNull \<and> stdError \<noteq> JUndefined
            \<and> ToString (own_property stdError ''message'')
                 = (Inr messageText :: deploy_error thrown + string)
            \<longrightarrow> run D flags = Inl (Foreign (SfdxError_created
                   \<lparr>packageName = ''sfdx-falcon'', bundleName = ''falconErrorMessages'',
                    errorKey = ''errDefault'',
                    errorTokens = [own_property falconError ''message'',
                                   own_property stdError ''message''],
                    errorActions =
                      (if regex_test (lit ''VMC_DEV_TEST1'') messageText
                       then [(''actionDevTest1'', [''TEST_ONE'']),
                             (''actionDevTest2'', [''TEST_TWO''])]
                       else if regex_test (lit ''VMC_DEV_TEST2'') messageText
                       then [(''actionDevTest2'', [''TEST_THREE''])]
                       else if regex_test (lit ''VMC_DEV_TEST3'') messageText
                       then [(''actionDevTest2'', [''TEST_FOUR''])]
                       else [])\<rparr>
                   ''falcon:demo:deploy'')))
        \<and> (falconError = JNull \<or> falconError = JUndefined
             \<or> own_property falconError ''stdErrJson'' = JNull
             \<or> own_property falconError ''stdErrJson'' = JUndefined
             \<or> (\<exists>t. ToString (own_property (own_property falconError ''stdErrJson'') ''message'')
                       = (Inl t :: deploy_error thrown + string))
            \<longrightarrow> run D flags = Inl TypeError))
   \<and> (\<forall>response. run D flags = Inr response
      \<longrightarrow> status response = 0 \<and> (\<exists>report. result response = ResultReport report))"
proof (intro conjI allI impI)
  fix p report
  assume "validateLocalPath D (deployDirFlag flags)
        \<and> AppxDemoProject_resolve D (path_resolve D (deployDirFlag flags)) (debugModeFlag flags) = Inr p
        \<and> validateDemo D p = Inr report"
  then show "run D flags = Inr \<lparr>status = 0, result = ResultReport report\<rparr>"
    by (simp add: run_def Let_def onSuccess_def)
next
  fix p falconError
  assume a: "validateLocalPath D (deployDirFlag flags)
        \<and> AppxDemoProject_resolve D (path_resolve D (deployDirFlag flags)) (debugModeFlag flags) = Inr p
        \<and> validateDemo D p = Inl falconError"
  obtain t where t: "onError falconError = Inl t" using onError_throws by blast
  with a have "run D flags = Inl t"
    by (simp add: run_failed_validation)
  with t show "\<exists>t. onError falconError = Inl t \<and> run D flags = Inl t"
    by blast
next
  fix p falconError stdError messageText
  assume a: "validateLocalPath D (deployDirFlag flags)
        \<and> AppxDemoProject_resolve D (path_resolve D (deployDirFlag flags)) (debugModeFlag flags) = Inr p
        \<and> validateDemo D p = Inl falconError"
    and h: "falconError \<noteq> JNull \<and> falconError \<noteq> JUndefined
            \<and> own_property falconError ''stdErrJson'' = stdError
            \<and> stdError \<noteq> JNull \<and> stdError \<noteq> JUndefined
            \<and> ToString (own_property stdError ''message'')
                 = (Inr messageText :: deploy_error thrown + string)"
  from h have "onError falconError = Inl (Foreign (SfdxError_created
      \<lparr>packageName = ''sfdx-falcon'', bundleName = ''falconErrorMessages'',
       errorKey = ''errDefault'',
       errorTokens = [own_property falconError ''message'', own_property stdError ''message''],
       errorActions =
         (if regex_test (lit ''VMC_DEV_TEST1'') messageText
          then [(''actionDevTest1'', [''TEST_ONE'']), (''actionDevTest2'', [''TEST_TWO''])]
          else if regex_test (lit ''VMC_DEV_TEST2'') messageText
          then [(''actionDevTest2'', [''TEST_THREE''])]
          else if regex_test (lit ''VMC_DEV_TEST3'') messageText
          then [(''actionDevTest2'', [''TEST_FOUR''])]
          else [])\<rparr>
      ''falcon:demo:deploy''))"
    by (intro onError_SfdxError) simp_all
  with a show "run D flags = Inl (Foreign (SfdxError_created
      \<lparr>packageName = ''sfdx-falcon'', bundleName = ''falconErrorMessages'',
       errorKey = ''errDefault'',
       errorTokens = [own_property falconError ''message'', own_property stdError ''message''],
       errorActions =
         (if regex_test (lit ''VMC_DEV_TEST1'') messageText
          then [(''actionDevTest1'', [''TEST_ONE'']), (''actionDevTest2'', [''TEST_TWO''])]
          else if regex_test (lit ''VMC_DEV_TEST2'') messageText
          then [(''actionDevTest2'', [''TEST_THREE''])]
          else if regex_test (lit ''VMC_DEV_TEST3'') messageText
          then [(''actionDevTest2'', [''TEST_FOUR''])]
          else [])\<rparr>
      ''falcon:demo:deploy''))"
    by (simp add: run_failed_validation)
next
  fix p falconError
  assume a: "validateLocalPath D (deployDirFlag flags)
        \<and> AppxDemoProject_resolve D (path_resolve D (deployDirFlag flags)) (debugModeFlag flags) = Inr p
        \<and> validateDemo D p = Inl falconError"
    and h: "falconError = JNull \<or> falconError = JUndefined
             \<or> own_property falconError ''stdErrJson'' = JNull
             \<or> own_property falconError ''stdErrJson'' = JUndefined
             \<or> (\<exists>t. ToString (own_property (own_property falconError ''stdErrJson'') ''message'')
                       = (Inl t :: deploy_error thrown + string))"
  from h have "onError falconError = Inl TypeError"
    by (rule onError_TypeError)
  with a show "run D flags = Inl TypeError"
    by (simp add: run_failed_validation)
next
  fix response
  assume r: "run D flags = Inr response"
  then have v: "validateLocalPath D (deployDirFlag flags)"
    by (auto simp: run_def Let_def split: if_splits)
  with r obtain p where p: "AppxDemoProject_resolve D (path_resolve D (deployDirFlag flags))
      (debugModeFlag flags) = Inr p"
    by (cases "AppxDemoProject_resolve D (path_resolve D (deployDirFlag flags)) (debugModeFlag flags)")
       (auto simp: run_def Let_def)
  have "\<exists>report. validateDemo D p = Inr report"
  proof (cases "validateDemo D p")
    case (Inl falconError)
    obtain t where "onError falconError = Inl t" using onError_throws by blast
    with r v p Inl show ?thesis by (simp add: run_failed_validation)
  next
    case (Inr report)
    then show ?thesis by blast
  qed
  then obtain report where "validateDemo D p = Inr report" by blast
  with r v p have "response = \<lparr>status = 0, result = ResultReport report\<rparr>"
    by (simp add: run_def Let_def onSuccess_def)
  then show "status response = 0" and "\<exists>report. result response = ResultReport report"
    by simp_all
qed

lemma regex_test_VMC_DEV_TEST:
  "\<not> regex_test (lit ''VMC_DEV_TEST1'') ''VMC_DEV_TEST2: no org''"
  "regex_test (lit ''VMC_DEV_TEST2'') ''VMC_DEV_TEST2: no org''"
  by code_simp+

text \<open>
  A failed validation: \<^verbatim>\<open>run\<close> rejects with the \<^verbatim>\<open>SfdxError\<close> of
  \<^verbatim>\<open>onError\<close>; it does not resolve with a response of status 1.
\<close>

theorem run_rejects_counterexample:
  "run (stub_deploy_collaborators
          (Inl (JObj [(''message'', JStr ''Validation failed''),
                      (''stdErrJson'', JObj [(''message'', JStr ''VMC_DEV_TEST2: no org'')])])))
       \<lparr>deploydir = None, falcondebug = None\<rparr>
   = Inl (Foreign (SfdxError_created
        \<lparr>packageName = ''sfdx-falcon'', bundleName = ''falconErrorMessages'',
         errorKey = ''errDefault'',
         errorTokens = [JStr ''Validation failed'', JStr ''VMC_DEV_TEST2: no org''],
         errorActions = [(''actionDevTest2'', [''TEST_THREE''])]\<rparr>
        ''falcon:demo:deploy''))"
proof -
  let ?e = "JObj [(''message'', JStr ''Validation failed''),
                  (''stdErrJson'', JObj [(''message'', JStr ''VMC_DEV_TEST2: no org'')])]"
  have "onError ?e = Inl (Foreign (SfdxError_created
        \<lparr>packageName = ''sfdx-falcon'', bundleName = ''falconErrorMessages'',
         errorKey = ''errDefault'',
         errorTokens = [JStr ''Validation failed'', JStr ''VMC_DEV_TEST2: no org''],
         errorActions = [(''actionDevTest2'', [''TEST_THREE''])]\<rparr>
        ''falcon:demo:deploy''))"
    using onError_SfdxError [of ?e "JObj [(''message'', JStr ''VMC_DEV_TEST2: no org'')]"
        "''VMC_DEV_TEST2: no org''"] regex_test_VMC_DEV_TEST
    by (simp add: lookup_def)
  then show ?thesis
    by (simp add: run_def Let_def stub_deploy_collaborators_def)
qed

theorem run_response_witness:
  "run (stub_deploy_collaborators (Inr ''3 steps passed'')) \<lparr>deploydir = None, falcondebug = None\<rparr>
     = Inr \<lparr>status = 0, result = ResultReport ''3 steps passed''\<rparr>
   \<and> run (stub_deploy_collaborators
          (Inl (JObj [(''message'', JStr ''Validation failed''),
                      (''stdErrJson'', JObj [(''message'', JStr ''VMC_DEV_TEST3 after VMC_DEV_TEST1'')])])))
       \<lparr>deploydir = None, falcondebug = None\<rparr>
     = Inl (Foreign (SfdxError_created
        \<lparr>packageName = ''sfdx-falcon'', bundleName = ''falconErrorMessages'',
         errorKey = ''errDefault'',
         errorTokens = [JStr ''Validation failed'', JStr ''VMC_DEV_TEST3 after VMC_DEV_TEST1''],
         errorActions = [(''actionDevTest1'', [''TEST_ONE'']),
                         (''actionDevTest2'', [''TEST_TWO''])]\<rparr>
        ''falcon:demo:deploy''))
   \<and> run (stub_deploy_collaborators (Inl (JStr ''no such org'')))
         \<lparr>deploydir = None, falcondebug = None\<rparr> = Inl TypeError"
proof -
  let ?f = "\<lparr>deploydir = None, falcondebug = None\<rparr>"
  let ?e = "JObj [(''message'', JStr ''Validation failed''),
                  (''stdErrJson'', JObj [(''message'', JStr ''VMC_DEV_TEST3 after VMC_DEV_TEST1'')])]"
  have n: "regex_test (lit ''VMC_DEV_TEST1'') ''VMC_DEV_TEST3 after VMC_DEV_TEST1''"
    by code_simp
  from run_response [of "stub_deploy_collaborators (Inr ''3 steps passed'')" ?f]
  have 1: "run (stub_deploy_collaborators (Inr ''3 steps passed'')) ?f
     = Inr \<lparr>status = 0, result = ResultReport ''3 steps passed''\<rparr>"
    by (simp add: stub_deploy_collaborators_def)
  from run_response [of "stub_deploy_collaborators (Inl ?e)" ?f] n
  have 2: "run (stub_deploy_collaborators (Inl ?e)) ?f
     = Inl (Foreign (SfdxError_created
        \<lparr>packageName = ''sfdx-falcon'', bundleName = ''falconErrorMessages'',
         errorKey = ''errDefault'',
         errorTokens = [JStr ''Validation failed'', JStr ''VMC_DEV_TEST3 after VMC_DEV_TEST1''],
         errorActions = [(''actionDevTest1'', [''TEST_ONE'']),
                         (''actionDevTest2'', [''TEST_TWO''])]\<rparr>
        ''falcon:demo:deploy''))"
    by (simp add: stub_deploy_collaborators_def lookup_def)
  from run_response [of "stub_deploy_collaborators (Inl (JStr ''no such org''))" ?f]
  have 3: "run (stub_deploy_collaborators (Inl (JStr ''no such org''))) ?f = Inl TypeError"
    by (simp add: stub_deploy_collaborators_def)
  from 1 2 3 show ?thesis by simp
qed

end
